theory Spec2Isabelle
  imports Complex_Main "HOL-Library.Sublist"
begin

section \<open>Numbers\<close>

text \<open>
  A JavaScript number is a binary64 value: a real, one of the two infinities, or
  \<open>NaN\<close>. The finite ones are modelled by the reals they are, and comparisons of
  numbers are comparisons of these reals. A numeric field that is \<open>undefined\<close> is
  modelled by \<open>NaN\<close>: JavaScript converts \<open>undefined\<close> to \<open>NaN\<close> in every comparison,
  product and sum, and both are falsy.
\<close>

datatype number = NaN | NegInfinity | Num real | Infinity

text \<open>\<open>a < b\<close>: false as soon as one side is \<open>NaN\<close>.\<close>

fun lt_n :: "number \<Rightarrow> number \<Rightarrow> bool" where
  "lt_n NaN b = False"
| "lt_n a NaN = False"
| "lt_n (Num a) (Num b) = (a < b)"
| "lt_n a NegInfinity = False"
| "lt_n NegInfinity b = True"
| "lt_n Infinity b = False"
| "lt_n a Infinity = True"

text \<open>\<open>a > b\<close> is \<open>b < a\<close>.\<close>

definition gt_n :: "number \<Rightarrow> number \<Rightarrow> bool" where
  "gt_n a b = lt_n b a"

text \<open>\<open>a >= b\<close>: false as soon as one side is \<open>NaN\<close>, otherwise not \<open>a < b\<close>.\<close>

definition ge_n :: "number \<Rightarrow> number \<Rightarrow> bool" where
  "ge_n a b = (a \<noteq> NaN \<and> b \<noteq> NaN \<and> \<not> lt_n a b)"

text \<open>
  The product \<open>a * b\<close> and the sum \<open>a + b\<close> of two numbers are the binary64 operations
  of the language: they round, and they overflow to an infinity. They are not defined
  here but taken as they are: every function that multiplies or adds takes them as a
  parameter, and the theorems hold whatever they return; the one property of the sum
  that an example needs is stated with it.
\<close>

record Arithmetic =
  mult_n :: "number \<Rightarrow> number \<Rightarrow> number"
  add_n :: "number \<Rightarrow> number \<Rightarrow> number"

text \<open>
  A property of the binary64 sum, which rounds to the nearest number and leaves the
  integers up to \<open>2^53\<close> as they are: when the exact sum of two finite numbers lies
  between two such integers, so does their sum.
\<close>

definition sumsBetweenIntegers :: "Arithmetic \<Rightarrow> bool" where
  "sumsBetweenIntegers arith =
     (\<forall>a b m n.
        \<bar>m\<bar> \<le> 2 ^ 53 \<and> \<bar>n\<bar> \<le> 2 ^ 53 \<and> real_of_int m \<le> a + b \<and> a + b \<le> real_of_int n \<longrightarrow>
          (\<exists>s. add_n arith (Num a) (Num b) = Num s \<and> real_of_int m \<le> s \<and> s \<le> real_of_int n))"

text \<open>\<open>x || null\<close> on a number: zero and \<open>NaN\<close> are falsy.\<close>

definition number_or_null :: "number \<Rightarrow> number option" where
  "number_or_null x = (if x = NaN \<or> x = Num 0 then None else Some x)"

text \<open>\<open>x || null\<close> on a nullable string: the empty string is falsy.\<close>

definition string_or_null :: "string option \<Rightarrow> string option" where
  "string_or_null x = (case x of None \<Rightarrow> None | Some s \<Rightarrow> if s = [] then None else Some s)"

section \<open>Data model\<close>

datatype ContentType = AUDIO | VIDEO | TEXT

text \<open>
  A stream of the manifest (\<open>shakaExtern.Stream\<close>). The fields \<open>id\<close>, \<open>type\<close>,
  \<open>language\<close>, \<open>bandwidth\<close> and \<open>primary\<close> carry the suffix \<open>_s\<close>, since a variant
  has fields of the same names.
\<close>

record Stream =
  id_s :: int
  type_s :: ContentType
  language_s :: string
  codecs :: string
  mimeType :: string
  bandwidth_s :: number
  roles :: "string list"
  primary_s :: bool
  encrypted :: bool
  kind :: "string option"
  label :: "string option"
  width :: number
  height :: number
  frameRate :: number
  channelsCount :: "number option"

text \<open>A variant (\<open>shakaExtern.Variant\<close>): at most one audio and one video stream.\<close>

record Variant =
  id_v :: int
  bandwidth_v :: number
  language_v :: string
  primary_v :: bool
  audio :: "Stream option"
  video :: "Stream option"
  allowedByApplication :: bool
  allowedByKeySystem :: bool

record Period =
  startTime :: number
  variants :: "Variant list"
  textStreams :: "Stream list"

record Manifest =
  periods :: "Period list"

record Restrictions =
  minWidth :: number
  maxWidth :: number
  minHeight :: number
  maxHeight :: number
  minPixels :: number
  maxPixels :: number
  minBandwidth :: number
  maxBandwidth :: number

text \<open>The hardware resolution cap \<open>maxHwRes\<close>, an object with a width and a height.\<close>

record Resolution =
  width_hw :: number
  height_hw :: number

section \<open>Restriction filter\<close>

text \<open>\<open>shaka.util.StreamUtils.meetsRestrictions\<close>.\<close>

definition meetsRestrictions ::
  "Arithmetic \<Rightarrow> Variant \<Rightarrow> Restrictions \<Rightarrow> Resolution \<Rightarrow> bool" where
  "meetsRestrictions arith variant restrictions maxHwRes =
     (if (case video variant of
            None \<Rightarrow> False
          | Some v \<Rightarrow>
              lt_n (width v) (minWidth restrictions) \<or>
              gt_n (width v) (maxWidth restrictions) \<or> gt_n (width v) (width_hw maxHwRes) \<or>
              lt_n (height v) (minHeight restrictions) \<or>
              gt_n (height v) (maxHeight restrictions) \<or>
              gt_n (height v) (height_hw maxHwRes) \<or>
              lt_n (mult_n arith (width v) (height v)) (minPixels restrictions) \<or>
              gt_n (mult_n arith (width v) (height v)) (maxPixels restrictions))
      then False
      else if lt_n (bandwidth_v variant) (minBandwidth restrictions) \<or>
              gt_n (bandwidth_v variant) (maxBandwidth restrictions)
      then False
      else True)"

text \<open>
  The \<open>forEach\<close> of \<open>applyRestrictions\<close>: the variants are visited in order, each
  gets its new flag, and \<open>tracksChanged\<close> is raised when the flag differs from the
  original one. The updated variants are returned with the final \<open>tracksChanged\<close>.
  Variants are modelled by their values. Were one variant object listed twice, its
  second visit would find the flag already updated and report no change, where the
  model reports the change of the first visit again: the returned flag is the same.
\<close>

fun applyRestrictions_forEach ::
  "Arithmetic \<Rightarrow> Variant list \<Rightarrow> Restrictions \<Rightarrow> Resolution \<Rightarrow> bool \<Rightarrow>
   bool \<times> Variant list" where
  "applyRestrictions_forEach arith [] restrictions maxHwRes tracksChanged = (tracksChanged, [])"
| "applyRestrictions_forEach arith (variant # rest) restrictions maxHwRes tracksChanged =
     (let originalAllowed = allowedByApplication variant;
          variant' = variant\<lparr>allowedByApplication :=
                        meetsRestrictions arith variant restrictions maxHwRes\<rparr>;
          tracksChanged' =
            (if originalAllowed \<noteq> allowedByApplication variant' then True else tracksChanged);
          (changed, rest') =
            applyRestrictions_forEach arith rest restrictions maxHwRes tracksChanged'
      in (changed, variant' # rest'))"

text \<open>
  \<open>shaka.util.StreamUtils.applyRestrictions\<close>: the period is mutated in place and the
  flag returned; the model returns both.
\<close>

definition applyRestrictions ::
  "Arithmetic \<Rightarrow> Period \<Rightarrow> Restrictions \<Rightarrow> Resolution \<Rightarrow> bool \<times> Period" where
  "applyRestrictions arith period restrictions maxHwRes =
     (let (tracksChanged, vs) =
            applyRestrictions_forEach arith (variants period) restrictions maxHwRes False
      in (tracksChanged, period\<lparr>variants := vs\<rparr>))"

section \<open>Compatibility filter\<close>

text \<open>
  The DRM engine, as far as this file queries it. A \<open>null\<close> engine is \<open>None\<close>.
\<close>

record DrmEngine =
  initialized :: bool
  isSupportedByKeySystem :: "Variant \<Rightarrow> bool"
  getSupportedTypes :: "string list"

text \<open>
  The platform queries this file calls and whose code is elsewhere:
  \<open>MediaSourceEngine.isStreamSupported\<close>, \<open>TextEngine.isTypeSupported\<close> and
  \<open>MimeUtils.getFullType\<close>. They are parameters of the model.
\<close>

record Platform =
  isStreamSupported :: "Stream \<Rightarrow> bool"
  isTypeSupported :: "string \<Rightarrow> bool"
  getFullType :: "string \<Rightarrow> string \<Rightarrow> string"

text \<open>A failed \<open>goog.asserts.assert\<close> throws.\<close>

datatype error = AssertionError

definition isAudio :: "Stream \<Rightarrow> bool" where
  "isAudio stream = (type_s stream = AUDIO)"

definition isVideo :: "Stream \<Rightarrow> bool" where
  "isVideo stream = (type_s stream = VIDEO)"

text \<open>\<open>s.split('.')[0]\<close>: the string up to its first dot, all of it when it has none.\<close>

definition split_dot_first :: "string \<Rightarrow> string" where
  "split_dot_first s = takeWhile (\<lambda>c. c \<noteq> CHR ''.'') s"

text \<open>
  \<open>shaka.util.StreamUtils.isStreamCompatible_\<close> (a name cannot end with an underscore
  here, so the private functions of the source lose theirs).
\<close>

definition isStreamCompatible ::
  "Platform \<Rightarrow> Stream option \<Rightarrow> DrmEngine option \<Rightarrow> Stream option \<Rightarrow> error + bool" where
  "isStreamCompatible platform stream drmEngine activeStream =
     (case stream of
        None \<Rightarrow> Inr True
      | Some s \<Rightarrow>
          if type_s s = TEXT then Inl AssertionError
          else
            let drmSupportedMimeTypes =
                  (case drmEngine of
                     None \<Rightarrow> None
                   | Some d \<Rightarrow> if initialized d then Some (getSupportedTypes d) else None);
                fullMimeType = getFullType platform (mimeType s) (codecs s)
            in if \<not> isStreamSupported platform s then Inr False
               else if (case drmSupportedMimeTypes of
                          None \<Rightarrow> False
                        | Some types \<Rightarrow> encrypted s \<and> fullMimeType \<notin> set types)
               then Inr False
               else (case activeStream of
                       None \<Rightarrow> Inr True
                     | Some a \<Rightarrow>
                         if mimeType s \<noteq> mimeType a \<or>
                            split_dot_first (codecs s) \<noteq> split_dot_first (codecs a)
                         then Inr False
                         else Inr True))"

text \<open>
  \<open>shaka.util.StreamUtils.isVariantCompatible_\<close>. The \<open>&&\<close> does not look at the video
  stream when the audio stream is not compatible.
\<close>

definition isVariantCompatible ::
  "Platform \<Rightarrow> Variant \<Rightarrow> DrmEngine option \<Rightarrow> Stream option \<Rightarrow> Stream option \<Rightarrow> error + bool" where
  "isVariantCompatible platform variant drmEngine activeAudio activeVideo =
     (if (case drmEngine of
            None \<Rightarrow> False
          | Some d \<Rightarrow> initialized d \<and> \<not> isSupportedByKeySystem d variant)
      then Inr False
      else (case isStreamCompatible platform (audio variant) drmEngine activeAudio of
              Inl e \<Rightarrow> Inl e
            | Inr ok \<Rightarrow>
                if ok then isStreamCompatible platform (video variant) drmEngine activeVideo
                else Inr False))"

text \<open>\<open>Array.prototype.filter\<close> with a callback that may throw: the first throw ends it.\<close>

fun filter_throwing :: "('a \<Rightarrow> error + bool) \<Rightarrow> 'a list \<Rightarrow> error + 'a list" where
  "filter_throwing f [] = Inr []"
| "filter_throwing f (x # xs) =
     (case f x of
        Inl e \<Rightarrow> Inl e
      | Inr keep \<Rightarrow>
          (case filter_throwing f xs of
             Inl e \<Rightarrow> Inl e
           | Inr ys \<Rightarrow> Inr (if keep then x # ys else ys)))"

text \<open>
  \<open>shaka.util.StreamUtils.filterNewPeriod\<close>: the period is mutated in place; the model
  returns the new period, or the error of the assertion that failed.
\<close>

definition filterNewPeriod ::
  "Platform \<Rightarrow> DrmEngine option \<Rightarrow> Stream option \<Rightarrow> Stream option \<Rightarrow> Period \<Rightarrow> error + Period" where
  "filterNewPeriod platform drmEngine activeAudio activeVideo period =
     (if (case activeAudio of None \<Rightarrow> False | Some a \<Rightarrow> \<not> isAudio a) then Inl AssertionError
      else if (case activeVideo of None \<Rightarrow> False | Some a \<Rightarrow> \<not> isVideo a) then Inl AssertionError
      else
        (case filter_throwing
                (\<lambda>variant. isVariantCompatible platform variant drmEngine activeAudio activeVideo)
                (variants period) of
           Inl e \<Rightarrow> Inl e
         | Inr vs \<Rightarrow>
             Inr (period\<lparr>variants := vs,
                    textStreams :=
                      filter (\<lambda>stream. isTypeSupported platform
                                (getFullType platform (mimeType stream) (codecs stream)))
                        (textStreams period)\<rparr>)))"

text \<open>\<open>shaka.util.StreamUtils.isPlayable\<close> and \<open>getPlayableVariants\<close>.\<close>

definition isPlayable :: "Variant \<Rightarrow> bool" where
  "isPlayable variant = (allowedByApplication variant \<and> allowedByKeySystem variant)"

definition getPlayableVariants :: "Variant list \<Rightarrow> Variant list" where
  "getPlayableVariants vs = filter (\<lambda>variant. isPlayable variant) vs"

section \<open>Language and role selector\<close>

datatype MatchType = EXACT | BASE_LANGUAGE_OKAY | OTHER_SUB_LANGUAGE_OKAY

text \<open>
  \<open>shaka.util.LanguageUtils\<close> is not part of this file: its \<open>normalize\<close> and \<open>match\<close>
  are parameters of the model.
\<close>

record LanguageUtils =
  normalize_l :: "string \<Rightarrow> string"
  match_l :: "MatchType \<Rightarrow> string \<Rightarrow> string \<Rightarrow> bool"

text \<open>
  Modelled from the spec: \<open>shaka.util.Functional.collapseArrays\<close>, the callback of the
  \<open>reduce\<close> that collects "the union of all roles present across the current
  selection", of which "the first role encountered" is then picked: it appends the next
  array to the ones collected so far.
\<close>

definition collapseArrays :: "'a list \<Rightarrow> 'a list \<Rightarrow> 'a list" where
  "collapseArrays all part = all @ part"

text \<open>
  The inner \<open>forEach\<close> of the language search of \<open>filterVariantsByLanguageAndRole\<close>,
  for one match type. Its state is \<open>pref\<close> (normalized again at every variant),
  \<open>chosen\<close>, \<open>betterLangMatchFound\<close> and whether \<open>opt_languageMatches\<close> was set.
\<close>

fun variantLanguage_forEach ::
  "LanguageUtils \<Rightarrow> MatchType \<Rightarrow> Variant list \<Rightarrow>
   string \<times> Variant list \<times> bool \<times> bool \<Rightarrow> string \<times> Variant list \<times> bool \<times> bool" where
  "variantLanguage_forEach LanguageUtils matchType [] state = state"
| "variantLanguage_forEach LanguageUtils matchType (variant # rest)
       (pref, chosen, betterLangMatchFound, languageMatches) =
     (let pref' = normalize_l LanguageUtils pref;
          lang = normalize_l LanguageUtils (language_v variant)
      in if match_l LanguageUtils matchType pref' lang
         then variantLanguage_forEach LanguageUtils matchType rest
                (pref', (if betterLangMatchFound then chosen @ [variant] else [variant]),
                 True, True)
         else variantLanguage_forEach LanguageUtils matchType rest
                (pref', chosen, betterLangMatchFound, languageMatches))"

text \<open>The outer \<open>forEach\<close> over the match types: each starts with no match found.\<close>

fun variantMatchType_forEach ::
  "LanguageUtils \<Rightarrow> MatchType list \<Rightarrow> Variant list \<Rightarrow>
   string \<times> Variant list \<times> bool \<Rightarrow> string \<times> Variant list \<times> bool" where
  "variantMatchType_forEach LanguageUtils [] playable state = state"
| "variantMatchType_forEach LanguageUtils (matchType # rest) playable
       (pref, chosen, languageMatches) =
     (case variantLanguage_forEach LanguageUtils matchType playable
             (pref, chosen, False, languageMatches) of
        (pref', chosen', found, languageMatches') \<Rightarrow>
          variantMatchType_forEach LanguageUtils rest playable (pref', chosen', languageMatches'))"

text \<open>
  \<open>filterVariantsByLanguageAndRole\<close> up to the role preference (lines 486 to 541 of
  the source): the value of \<open>chosen\<close> there, and whether the call set
  \<open>opt_languageMatches\<close>.
\<close>

definition chosenVariantsByLanguage ::
  "LanguageUtils \<Rightarrow> Variant list \<Rightarrow> string \<Rightarrow> Variant list \<times> bool" where
  "chosenVariantsByLanguage LanguageUtils vs preferredLanguage =
     (let playable = getPlayableVariants vs;
          primary = filter (\<lambda>variant. primary_v variant) playable;
          chosen = (if primary \<noteq> [] then primary else playable);
          firstLanguage = (case chosen of [] \<Rightarrow> [] | first # rest \<Rightarrow> language_v first);
          chosen = filter (\<lambda>variant. language_v variant = firstLanguage) chosen
      in if preferredLanguage \<noteq> []
         then (case variantMatchType_forEach LanguageUtils
                      [OTHER_SUB_LANGUAGE_OKAY, BASE_LANGUAGE_OKAY, EXACT] playable
                      (normalize_l LanguageUtils preferredLanguage, chosen, False) of
                 (pref, chosen', languageMatches) \<Rightarrow> (chosen', languageMatches))
         else (chosen, False))"

text \<open>\<open>shaka.util.StreamUtils.filterVariantsByRole_\<close>.\<close>

definition filterVariantsByRole :: "Variant list \<Rightarrow> string \<Rightarrow> Variant list" where
  "filterVariantsByRole vs preferredRole =
     filter (\<lambda>variant.
        (case audio variant of None \<Rightarrow> False | Some a \<Rightarrow> preferredRole \<in> set (roles a)) \<or>
        (case video variant of None \<Rightarrow> False | Some v \<Rightarrow> preferredRole \<in> set (roles v))) vs"

text \<open>
  The rest of \<open>filterVariantsByLanguageAndRole\<close> (lines 543 to 566), from the value of
  \<open>chosen\<close>.
\<close>

definition refineVariantsByRole :: "Variant list \<Rightarrow> string \<Rightarrow> Variant list" where
  "refineVariantsByRole chosen preferredRole =
     (let roleMatches = filterVariantsByRole chosen preferredRole
      in if preferredRole \<noteq> [] \<and> roleMatches \<noteq> [] then roleMatches
         else
           let allRoles =
                 foldl collapseArrays []
                   (map (\<lambda>variant.
                           (case audio variant of None \<Rightarrow> [] | Some a \<Rightarrow> roles a) @
                           (case video variant of None \<Rightarrow> [] | Some v \<Rightarrow> roles v)) chosen)
           in (case allRoles of
                 [] \<Rightarrow> chosen
               | role # others \<Rightarrow> filterVariantsByRole chosen role))"

text \<open>\<open>shaka.util.StreamUtils.filterVariantsByLanguageAndRole\<close>: the array it returns.\<close>

definition filterVariantsByLanguageAndRole ::
  "LanguageUtils \<Rightarrow> Variant list \<Rightarrow> string \<Rightarrow> string \<Rightarrow> Variant list" where
  "filterVariantsByLanguageAndRole LanguageUtils vs preferredLanguage preferredRole =
     refineVariantsByRole
       (fst (chosenVariantsByLanguage LanguageUtils vs preferredLanguage)) preferredRole"

text \<open>
  The same for text streams. Here \<open>pref\<close> is normalized once, before the loops, so the
  state of the inner \<open>forEach\<close> is \<open>chosen\<close>, \<open>betterLangMatchFound\<close> and whether
  \<open>opt_languageMatches\<close> was set.
\<close>

fun streamLanguage_forEach ::
  "LanguageUtils \<Rightarrow> MatchType \<Rightarrow> string \<Rightarrow> Stream list \<Rightarrow>
   Stream list \<times> bool \<times> bool \<Rightarrow> Stream list \<times> bool \<times> bool" where
  "streamLanguage_forEach LanguageUtils matchType pref [] state = state"
| "streamLanguage_forEach LanguageUtils matchType pref (stream # rest)
       (chosen, betterLangMatchFound, languageMatches) =
     (let lang = normalize_l LanguageUtils (language_s stream)
      in if match_l LanguageUtils matchType pref lang
         then streamLanguage_forEach LanguageUtils matchType pref rest
                ((if betterLangMatchFound then chosen @ [stream] else [stream]), True, True)
         else streamLanguage_forEach LanguageUtils matchType pref rest
                (chosen, betterLangMatchFound, languageMatches))"

fun streamMatchType_forEach ::
  "LanguageUtils \<Rightarrow> MatchType list \<Rightarrow> string \<Rightarrow> Stream list \<Rightarrow>
   Stream list \<times> bool \<Rightarrow> Stream list \<times> bool" where
  "streamMatchType_forEach LanguageUtils [] pref streams state = state"
| "streamMatchType_forEach LanguageUtils (matchType # rest) pref streams
       (chosen, languageMatches) =
     (case streamLanguage_forEach LanguageUtils matchType pref streams
             (chosen, False, languageMatches) of
        (chosen', found, languageMatches') \<Rightarrow>
          streamMatchType_forEach LanguageUtils rest pref streams (chosen', languageMatches'))"

text \<open>\<open>filterStreamsByLanguageAndRole\<close> up to the role preference (lines 579 to 629).\<close>

definition chosenStreamsByLanguage ::
  "LanguageUtils \<Rightarrow> Stream list \<Rightarrow> string \<Rightarrow> Stream list \<times> bool" where
  "chosenStreamsByLanguage LanguageUtils streams preferredLanguage =
     (let primary = filter (\<lambda>stream. primary_s stream) streams;
          chosen = (if primary \<noteq> [] then primary else streams);
          firstLanguage = (case chosen of [] \<Rightarrow> [] | first # rest \<Rightarrow> language_s first);
          chosen = filter (\<lambda>stream. language_s stream = firstLanguage) chosen
      in if preferredLanguage \<noteq> []
         then streamMatchType_forEach LanguageUtils
                [OTHER_SUB_LANGUAGE_OKAY, BASE_LANGUAGE_OKAY, EXACT]
                (normalize_l LanguageUtils preferredLanguage) streams (chosen, False)
         else (chosen, False))"

text \<open>\<open>shaka.util.StreamUtils.filterTextStreamsByRole_\<close>.\<close>

definition filterTextStreamsByRole :: "Stream list \<Rightarrow> string \<Rightarrow> Stream list" where
  "filterTextStreamsByRole streams preferredRole =
     filter (\<lambda>stream. preferredRole \<in> set (roles stream)) streams"

text \<open>The rest of \<open>filterStreamsByLanguageAndRole\<close> (lines 631 to 653).\<close>

definition refineStreamsByRole :: "Stream list \<Rightarrow> string \<Rightarrow> Stream list" where
  "refineStreamsByRole chosen preferredRole =
     (let roleMatches = filterTextStreamsByRole chosen preferredRole
      in if preferredRole \<noteq> [] \<and> roleMatches \<noteq> [] then roleMatches
         else
           let allRoles = foldl collapseArrays [] (map (\<lambda>stream. roles stream) chosen)
           in (case allRoles of
                 [] \<Rightarrow> chosen
               | role # others \<Rightarrow> filterTextStreamsByRole chosen role))"


section \<open>Track projection\<close>

text \<open>A track (\<open>shakaExtern.Track\<close>); \<open>null\<close> is \<open>None\<close>. Its fields carry the suffix \<open>_t\<close>.\<close>

record Track =
  id_t :: int
  active_t :: bool
  type_t :: string
  bandwidth_t :: number
  language_t :: string
  label_t :: "string option"
  kind_t :: "string option"
  width_t :: "number option"
  height_t :: "number option"
  frameRate_t :: "number option"
  mimeType_t :: "string option"
  codecs_t :: "string option"
  audioCodec_t :: "string option"
  videoCodec_t :: "string option"
  primary_t :: bool
  roles_t :: "string list"
  videoId_t :: "int option"
  audioId_t :: "int option"
  channelsCount_t :: "number option"
  audioBandwidth_t :: "number option"
  videoBandwidth_t :: "number option"

text \<open>
  Modelled from the spec: \<open>shaka.util.ArrayUtils.removeDuplicates\<close>, which is not part
  of this file: "duplicates removed while preserving first-seen order".
\<close>

function removeDuplicates :: "'a list \<Rightarrow> 'a list" where
  "removeDuplicates [] = []"
| "removeDuplicates (x # xs) = x # removeDuplicates (removeAll x xs)"
  by pat_completeness auto
termination
  by (relation "measure length") (auto simp: less_Suc_eq_le)

text \<open>\<open>Array.prototype.join\<close> on an array of strings.\<close>

fun join :: "string \<Rightarrow> string list \<Rightarrow> string" where
  "join separator [] = []"
| "join separator [x] = x"
| "join separator (x # y # ys) = x @ separator @ join separator (y # ys)"

text \<open>\<open>shaka.util.StreamUtils.variantToTrack\<close>.\<close>

definition variantToTrack :: "Variant \<Rightarrow> Track" where
  "variantToTrack variant =
     (let audioCodec = (case audio variant of None \<Rightarrow> None | Some a \<Rightarrow> Some (codecs a));
          videoCodec = (case video variant of None \<Rightarrow> None | Some v \<Rightarrow> Some (codecs v));
          codecList =
            (case string_or_null videoCodec of None \<Rightarrow> [] | Some c \<Rightarrow> [c]) @
            (case string_or_null audioCodec of None \<Rightarrow> [] | Some c \<Rightarrow> [c]);
          mimeTypes =
            (case video variant of None \<Rightarrow> [] | Some v \<Rightarrow> [mimeType v]) @
            (case audio variant of None \<Rightarrow> [] | Some a \<Rightarrow> [mimeType a]);
          mimeType' = (case mimeTypes of [] \<Rightarrow> None | m # ms \<Rightarrow> string_or_null (Some m));
          kinds =
            (case audio variant of None \<Rightarrow> [] | Some a \<Rightarrow> [kind a]) @
            (case video variant of None \<Rightarrow> [] | Some v \<Rightarrow> [kind v]);
          kind' = (case kinds of [] \<Rightarrow> None | k # ks \<Rightarrow> string_or_null k);
          roleList =
            removeDuplicates
              ((case audio variant of None \<Rightarrow> [] | Some a \<Rightarrow> roles a) @
               (case video variant of None \<Rightarrow> [] | Some v \<Rightarrow> roles v));
          track =
            \<lparr> id_t = id_v variant,
              active_t = False,
              type_t = ''variant'',
              bandwidth_t = bandwidth_v variant,
              language_t = language_v variant,
              label_t = None,
              kind_t = kind',
              width_t = None,
              height_t = None,
              frameRate_t = None,
              mimeType_t = mimeType',
              codecs_t = Some (join '', '' codecList),
              audioCodec_t = audioCodec,
              videoCodec_t = videoCodec,
              primary_t = primary_v variant,
              roles_t = roleList,
              videoId_t = None,
              audioId_t = None,
              channelsCount_t = None,
              audioBandwidth_t = None,
              videoBandwidth_t = None \<rparr>;
          track =
            (case video variant of
               None \<Rightarrow> track
             | Some v \<Rightarrow>
                 track\<lparr> videoId_t := Some (id_s v),
                        width_t := number_or_null (width v),
                        height_t := number_or_null (height v),
                        frameRate_t := number_or_null (frameRate v),
                        videoBandwidth_t := number_or_null (bandwidth_s v) \<rparr>);
          track =
            (case audio variant of
               None \<Rightarrow> track
             | Some a \<Rightarrow>
                 track\<lparr> audioId_t := Some (id_s a),
                        channelsCount_t := channelsCount a,
                        audioBandwidth_t := number_or_null (bandwidth_s a),
                        label_t := label a \<rparr>)
      in track)"

section \<open>Lookup helpers\<close>

text \<open>
  The loop of \<open>findPeriodContainingTime\<close>, from index \<open>i\<close> down to 1; it is run from the
  last index, so \<open>i\<close> is always an index of \<open>periods\<close> when a period is read.
  \<open>threshold\<close> is \<open>ManifestParserUtils.GAP_OVERLAP_TOLERANCE_SECONDS\<close>, a constant whose
  value is not in this file: a parameter of the model.
\<close>

fun findPeriodContainingTime_loop ::
  "Arithmetic \<Rightarrow> number \<Rightarrow> Period list \<Rightarrow> number \<Rightarrow> nat \<Rightarrow> nat" where
  "findPeriodContainingTime_loop arith threshold ps time 0 = 0"
| "findPeriodContainingTime_loop arith threshold ps time (Suc i) =
     (if ge_n (add_n arith time threshold) (startTime (ps ! Suc i)) then Suc i
      else findPeriodContainingTime_loop arith threshold ps time i)"

text \<open>
  \<open>shaka.util.StreamUtils.findPeriodContainingTime\<close>. With no period the loop starts at
  -1 and does not run; the truncated subtraction starts it at 0, where it does not run
  either.
\<close>

definition findPeriodContainingTime ::
  "Arithmetic \<Rightarrow> number \<Rightarrow> Manifest \<Rightarrow> number \<Rightarrow> nat" where
  "findPeriodContainingTime arith threshold manifest time =
     findPeriodContainingTime_loop arith threshold (periods manifest) time
       (length (periods manifest) - 1)"

section \<open>Properties stated by the specification\<close>

text \<open>
  A value is outside the bounds \<open>[lo, hi]\<close> when it is strictly below the lower or
  strictly above the upper one.
\<close>

definition outside :: "number \<Rightarrow> number \<Rightarrow> number \<Rightarrow> bool" where
  "outside x lo hi = (lt_n x lo \<or> gt_n x hi)"

text \<open>
  The bounds a variant can violate, as the specification lists them: with a video
  stream, its width and height against the restrictions and against the hardware cap,
  and its pixel count, the product of its width and height; in every case the bandwidth
  of the variant.
\<close>

definition violatesRestrictions ::
  "Arithmetic \<Rightarrow> Variant \<Rightarrow> Restrictions \<Rightarrow> Resolution \<Rightarrow> bool" where
  "violatesRestrictions arith variant restrictions maxHwRes =
     ((case video variant of
         None \<Rightarrow> False
       | Some v \<Rightarrow>
           outside (width v) (minWidth restrictions) (maxWidth restrictions) \<or>
           outside (height v) (minHeight restrictions) (maxHeight restrictions) \<or>
           gt_n (width v) (width_hw maxHwRes) \<or>
           gt_n (height v) (height_hw maxHwRes) \<or>
           outside (mult_n arith (width v) (height v))
             (minPixels restrictions) (maxPixels restrictions)) \<or>
      outside (bandwidth_v variant) (minBandwidth restrictions) (maxBandwidth restrictions))"

text \<open>
  The roles a variant exposes: those of its audio stream, then those of its video stream.
\<close>

definition variantRoles :: "Variant \<Rightarrow> string list" where
  "variantRoles variant =
     (case audio variant of None \<Rightarrow> [] | Some a \<Rightarrow> roles a) @
     (case video variant of None \<Rightarrow> [] | Some v \<Rightarrow> roles v)"

text \<open>
  The matches of one tier: the entries of the given list, in its order, whose normalized
  language matches the normalized preference at that match type.
\<close>

definition variantTierMatches ::
  "LanguageUtils \<Rightarrow> MatchType \<Rightarrow> string \<Rightarrow> Variant list \<Rightarrow> Variant list" where
  "variantTierMatches LanguageUtils matchType preferredLanguage vs =
     filter (\<lambda>variant. match_l LanguageUtils matchType
                (normalize_l LanguageUtils preferredLanguage)
                (normalize_l LanguageUtils (language_v variant))) vs"

definition streamTierMatches ::
  "LanguageUtils \<Rightarrow> MatchType \<Rightarrow> string \<Rightarrow> Stream list \<Rightarrow> Stream list" where
  "streamTierMatches LanguageUtils matchType preferredLanguage streams =
     filter (\<lambda>stream. match_l LanguageUtils matchType
                (normalize_l LanguageUtils preferredLanguage)
                (normalize_l LanguageUtils (language_s stream))) streams"

text \<open>
  Stream compatibility as the specification states it, for a stream of a variant
  against the active stream of its kind: the platform can decode it; when the DRM
  engine is initialized and the stream is encrypted, the supported types of the engine
  hold its full MIME type; and when there is an active stream, both have the same MIME
  type and the same codec string up to the first dot.
\<close>

definition streamCompatible ::
  "Platform \<Rightarrow> DrmEngine option \<Rightarrow> Stream \<Rightarrow> Stream option \<Rightarrow> bool" where
  "streamCompatible platform drmEngine s activeStream =
     (isStreamSupported platform s \<and>
      (case drmEngine of
         None \<Rightarrow> True
       | Some d \<Rightarrow>
           initialized d \<and> encrypted s \<longrightarrow>
             getFullType platform (mimeType s) (codecs s) \<in> set (getSupportedTypes d)) \<and>
      (case activeStream of
         None \<Rightarrow> True
       | Some a \<Rightarrow>
           mimeType s = mimeType a \<and>
           takeWhile (\<lambda>c. c \<noteq> CHR ''.'') (codecs s) =
           takeWhile (\<lambda>c. c \<noteq> CHR ''.'') (codecs a)))"

text \<open>
  The variants that stay, as the specification states it: the initialized DRM engine
  supports the variant, and each stream the variant has is compatible.
\<close>

definition variantSurvives ::
  "Platform \<Rightarrow> DrmEngine option \<Rightarrow> Stream option \<Rightarrow> Stream option \<Rightarrow> Variant \<Rightarrow> bool" where
  "variantSurvives platform drmEngine activeAudio activeVideo variant =
     ((case drmEngine of
         None \<Rightarrow> True
       | Some d \<Rightarrow> initialized d \<longrightarrow> isSupportedByKeySystem d variant) \<and>
      (case audio variant of
         None \<Rightarrow> True
       | Some a \<Rightarrow> streamCompatible platform drmEngine a activeAudio) \<and>
      (case video variant of
         None \<Rightarrow> True
       | Some v \<Rightarrow> streamCompatible platform drmEngine v activeVideo))"

text \<open>The text streams that stay: the text engine supports their full MIME type.\<close>

definition textStreamSurvives :: "Platform \<Rightarrow> Stream \<Rightarrow> bool" where
  "textStreamSurvives platform stream =
     isTypeSupported platform (getFullType platform (mimeType stream) (codecs stream))"

text \<open>
  The inputs on which no assertion of \<open>filterNewPeriod\<close> fails: the active streams have
  their types, and no variant of the period holds a text stream.
\<close>

definition wellTypedStreams :: "Stream option \<Rightarrow> Stream option \<Rightarrow> Period \<Rightarrow> bool" where
  "wellTypedStreams activeAudio activeVideo period =
     ((case activeAudio of None \<Rightarrow> True | Some a \<Rightarrow> type_s a = AUDIO) \<and>
      (case activeVideo of None \<Rightarrow> True | Some a \<Rightarrow> type_s a = VIDEO) \<and>
      list_all (\<lambda>variant.
         (case audio variant of None \<Rightarrow> True | Some a \<Rightarrow> type_s a \<noteq> TEXT) \<and>
         (case video variant of None \<Rightarrow> True | Some v \<Rightarrow> type_s v \<noteq> TEXT))
        (variants period))"

section \<open>Example inputs\<close>

text \<open>
  Concrete streams, variants and utilities on which the theorems below are
  instantiated. \<open>exampleLanguageUtils\<close> compares language tags as they are: exactly,
  against the base language of the preference, and base language against base language.
\<close>

definition exampleAudio :: Stream where
  "exampleAudio =
     \<lparr> id_s = 1, type_s = AUDIO, language_s = ''en'', codecs = ''mp4a.40.2'',
       mimeType = ''audio/mp4'', bandwidth_s = Num 128000, roles = [''main''],
       primary_s = False, encrypted = False, kind = None, label = Some ''English'',
       width = NaN, height = NaN, frameRate = NaN, channelsCount = Some (Num 2) \<rparr>"

definition exampleVideo :: Stream where
  "exampleVideo =
     \<lparr> id_s = 2, type_s = VIDEO, language_s = ''en'', codecs = ''avc1.4d401f'',
       mimeType = ''video/mp4'', bandwidth_s = Num 1000000, roles = [],
       primary_s = False, encrypted = False, kind = None, label = None,
       width = Num 1280, height = Num 720, frameRate = Num 30, channelsCount = None \<rparr>"

definition exampleText :: Stream where
  "exampleText =
     \<lparr> id_s = 3, type_s = TEXT, language_s = ''en'', codecs = [],
       mimeType = ''text/vtt'', bandwidth_s = NaN, roles = [],
       primary_s = False, encrypted = False, kind = Some ''subtitle'', label = None,
       width = NaN, height = NaN, frameRate = NaN, channelsCount = None \<rparr>"

definition exampleVariant :: Variant where
  "exampleVariant =
     \<lparr> id_v = 10, bandwidth_v = Num 1128000, language_v = ''en'', primary_v = False,
       audio = Some exampleAudio, video = Some exampleVideo,
       allowedByApplication = True, allowedByKeySystem = True \<rparr>"

definition exampleLanguageUtils :: LanguageUtils where
  "exampleLanguageUtils =
     \<lparr> normalize_l = (\<lambda>lang. lang),
       match_l = (\<lambda>fuzz preference candidate.
         case fuzz of
           EXACT \<Rightarrow> candidate = preference
         | BASE_LANGUAGE_OKAY \<Rightarrow> candidate = takeWhile (\<lambda>c. c \<noteq> CHR ''-'') preference
         | OTHER_SUB_LANGUAGE_OKAY \<Rightarrow>
             takeWhile (\<lambda>c. c \<noteq> CHR ''-'') candidate =
             takeWhile (\<lambda>c. c \<noteq> CHR ''-'') preference) \<rparr>"

definition examplePlatform :: Platform where
  "examplePlatform =
     \<lparr> isStreamSupported = (\<lambda>stream. mimeType stream \<noteq> ''video/webm''),
       isTypeSupported = (\<lambda>fullMimeType. fullMimeType = ''text/vtt''),
       getFullType = (\<lambda>mimeType codecs.
         if codecs = [] then mimeType else mimeType @ ''; codecs='' @ codecs) \<rparr>"

definition exampleCommentaryVariant :: Variant where
  "exampleCommentaryVariant =
     exampleVariant\<lparr> id_v := 11,
       audio := Some (exampleAudio\<lparr> id_s := 4, roles := [''commentary''] \<rparr>) \<rparr>"

definition exampleVariantIn :: "string \<Rightarrow> Variant" where
  "exampleVariantIn lang = exampleVariant\<lparr> language_v := lang \<rparr>"

definition exampleTextIn :: "string \<Rightarrow> Stream" where
  "exampleTextIn lang = exampleText\<lparr> language_s := lang \<rparr>"

text \<open>
  An arithmetic for the examples: the product and the sum without rounding. The
  products and sums of the examples are of integers and of fractions whose denominator
  is a power of two, all small, on which the binary64 operations do not round either.
\<close>

fun exactSign :: "number \<Rightarrow> real" where
  "exactSign (Num a) = sgn a"
| "exactSign Infinity = 1"
| "exactSign NegInfinity = - 1"
| "exactSign NaN = 0"

fun exactProduct :: "number \<Rightarrow> number \<Rightarrow> number" where
  "exactProduct NaN b = NaN"
| "exactProduct a NaN = NaN"
| "exactProduct (Num a) (Num b) = Num (a * b)"
| "exactProduct a b =
     (if exactSign a * exactSign b = 0 then NaN
      else if 0 < exactSign a * exactSign b then Infinity else NegInfinity)"

fun exactSum :: "number \<Rightarrow> number \<Rightarrow> number" where
  "exactSum NaN b = NaN"
| "exactSum a NaN = NaN"
| "exactSum (Num a) (Num b) = Num (a + b)"
| "exactSum (Num a) b = b"
| "exactSum a (Num b) = a"
| "exactSum a b = (if a = b then a else NaN)"

definition exampleArithmetic :: Arithmetic where
  "exampleArithmetic = \<lparr> mult_n = exactProduct, add_n = exactSum \<rparr>"

definition exampleDrmEngine :: DrmEngine where
  "exampleDrmEngine =
     \<lparr> initialized = True,
       isSupportedByKeySystem = (\<lambda>variant. allowedByKeySystem variant),
       getSupportedTypes = [''video/mp4; codecs=avc1.4d401f''] \<rparr>"

definition examplePeriodAt :: "real \<Rightarrow> Period" where
  "examplePeriodAt start = \<lparr> startTime = Num start, variants = [], textStreams = [] \<rparr>"

definition exampleManifest :: Manifest where
  "exampleManifest =
     \<lparr> periods = [examplePeriodAt 0, examplePeriodAt 10, examplePeriodAt 20] \<rparr>"

section \<open>Restriction filter: theorems\<close>

lemma lt_n_irrefl: "\<not> lt_n x x"
  by (cases x) simp_all

lemma meetsRestrictions_allowed_update:
  "meetsRestrictions arith (v\<lparr>allowedByApplication := b\<rparr>) r hw =
   meetsRestrictions arith v r hw"
  by (simp add: meetsRestrictions_def)

lemma applyRestrictions_forEach_eq:
  "applyRestrictions_forEach arith vs r hw c =
     (c \<or> list_ex (\<lambda>v. allowedByApplication v \<noteq> meetsRestrictions arith v r hw) vs,
      map (\<lambda>v. v\<lparr>allowedByApplication := meetsRestrictions arith v r hw\<rparr>) vs)"
  by (induction vs arbitrary: c) (auto simp: Let_def)

text \<open>
  C4. \<open>meetsRestrictions\<close> returns false exactly when a bound is strictly violated: with
  a video stream, the width or the height is outside its bounds or above the hardware
  cap, or the pixel count, the product of the width and the height as the language
  computes it, is outside its bounds; in every case, the bandwidth is outside its
  bounds. Without a video stream only the bandwidth bounds apply. On finite numbers,
  with \<open>p\<close> the product computed, the variant passes exactly when every value lies in
  its closed interval, so a value equal to a bound passes; no value is outside the
  bounds it equals.
\<close>

theorem meetsRestrictions_iff_no_bound_violated:
  "(meetsRestrictions arith variant restrictions maxHwRes = False \<longleftrightarrow>
      violatesRestrictions arith variant restrictions maxHwRes) \<and>
   (meetsRestrictions arith (variant\<lparr>video := None\<rparr>) restrictions maxHwRes \<longleftrightarrow>
      \<not> outside (bandwidth_v variant) (minBandwidth restrictions) (maxBandwidth restrictions)) \<and>
   (mult_n arith (Num w) (Num h) = Num p \<longrightarrow>
      (meetsRestrictions arith
         (variant\<lparr>video := Some (v\<lparr>width := Num w, height := Num h\<rparr>), bandwidth_v := Num b\<rparr>)
         \<lparr>minWidth = Num wmin, maxWidth = Num wmax, minHeight = Num hmin,
          maxHeight = Num hmax, minPixels = Num pmin, maxPixels = Num pmax,
          minBandwidth = Num bmin, maxBandwidth = Num bmax\<rparr>
         \<lparr>width_hw = Num wcap, height_hw = Num hcap\<rparr> \<longleftrightarrow>
       wmin \<le> w \<and> w \<le> wmax \<and> w \<le> wcap \<and> hmin \<le> h \<and> h \<le> hmax \<and> h \<le> hcap \<and>
       pmin \<le> p \<and> p \<le> pmax \<and> bmin \<le> b \<and> b \<le> bmax)) \<and>
   \<not> outside x x x"
proof (intro conjI impI)
  show "meetsRestrictions arith variant restrictions maxHwRes = False \<longleftrightarrow>
      violatesRestrictions arith variant restrictions maxHwRes"
    by (cases "video variant")
       (auto simp: meetsRestrictions_def violatesRestrictions_def outside_def)
  show "meetsRestrictions arith (variant\<lparr>video := None\<rparr>) restrictions maxHwRes \<longleftrightarrow>
      \<not> outside (bandwidth_v variant) (minBandwidth restrictions) (maxBandwidth restrictions)"
    by (simp add: meetsRestrictions_def outside_def)
  show "\<not> outside x x x"
    by (simp add: outside_def gt_n_def lt_n_irrefl)
next
  assume "mult_n arith (Num w) (Num h) = Num p"
  then show "meetsRestrictions arith
         (variant\<lparr>video := Some (v\<lparr>width := Num w, height := Num h\<rparr>), bandwidth_v := Num b\<rparr>)
         \<lparr>minWidth = Num wmin, maxWidth = Num wmax, minHeight = Num hmin,
          maxHeight = Num hmax, minPixels = Num pmin, maxPixels = Num pmax,
          minBandwidth = Num bmin, maxBandwidth = Num bmax\<rparr>
         \<lparr>width_hw = Num wcap, height_hw = Num hcap\<rparr> \<longleftrightarrow>
       wmin \<le> w \<and> w \<le> wmax \<and> w \<le> wcap \<and> hmin \<le> h \<and> h \<le> hmax \<and> h \<le> hcap \<and>
       pmin \<le> p \<and> p \<le> pmax \<and> bmin \<le> b \<and> b \<le> bmax"
    by (simp add: meetsRestrictions_def gt_n_def not_less)
qed

text \<open>
  The 1280 by 720 example variant, whose 921600 pixels are computed without rounding,
  passes when its width equals \<open>minWidth\<close> and the hardware width, its height equals
  \<open>maxHeight\<close>, its pixel count equals \<open>maxPixels\<close> and its bandwidth equals
  \<open>minBandwidth\<close>; it fails when \<open>maxPixels\<close> is one less.
\<close>

theorem meetsRestrictions_boundary_witness:
  "mult_n exampleArithmetic (Num 1280) (Num 720) = Num 921600 \<and>
   meetsRestrictions exampleArithmetic
      (exampleVariant\<lparr>video := Some (exampleVideo\<lparr>width := Num 1280, height := Num 720\<rparr>),
         bandwidth_v := Num 1128000\<rparr>)
      \<lparr>minWidth = Num 1280, maxWidth = Num 1920, minHeight = Num 0, maxHeight = Num 720,
       minPixels = Num 0, maxPixels = Num 921600,
       minBandwidth = Num 1128000, maxBandwidth = Num 2000000\<rparr>
      \<lparr>width_hw = Num 1280, height_hw = Num 1080\<rparr> \<and>
   \<not> meetsRestrictions exampleArithmetic
      (exampleVariant\<lparr>video := Some (exampleVideo\<lparr>width := Num 1280, height := Num 720\<rparr>),
         bandwidth_v := Num 1128000\<rparr>)
      \<lparr>minWidth = Num 1280, maxWidth = Num 1920, minHeight = Num 0, maxHeight = Num 720,
       minPixels = Num 0, maxPixels = Num 921599,
       minBandwidth = Num 1128000, maxBandwidth = Num 2000000\<rparr>
      \<lparr>width_hw = Num 1280, height_hw = Num 1080\<rparr>"
proof -
  have product: "mult_n exampleArithmetic (Num 1280) (Num 720) = Num 921600"
    by (simp add: exampleArithmetic_def)
  from meetsRestrictions_iff_no_bound_violated
          [where arith = exampleArithmetic and variant = exampleVariant and v = exampleVideo
             and w = 1280 and h = 720 and p = 921600
             and b = 1128000 and wmin = 1280 and wmax = 1920 and hmin = 0 and hmax = 720
             and pmin = 0 and pmax = 921600 and bmin = 1128000 and bmax = 2000000
             and wcap = 1280 and hcap = 1080]
       product
  have pass: "meetsRestrictions exampleArithmetic
      (exampleVariant\<lparr>video := Some (exampleVideo\<lparr>width := Num 1280, height := Num 720\<rparr>),
         bandwidth_v := Num 1128000\<rparr>)
      \<lparr>minWidth = Num 1280, maxWidth = Num 1920, minHeight = Num 0, maxHeight = Num 720,
       minPixels = Num 0, maxPixels = Num 921600,
       minBandwidth = Num 1128000, maxBandwidth = Num 2000000\<rparr>
      \<lparr>width_hw = Num 1280, height_hw = Num 1080\<rparr>"
    by simp
  from meetsRestrictions_iff_no_bound_violated
          [where arith = exampleArithmetic and variant = exampleVariant and v = exampleVideo
             and w = 1280 and h = 720 and p = 921600
             and b = 1128000 and wmin = 1280 and wmax = 1920 and hmin = 0 and hmax = 720
             and pmin = 0 and pmax = 921599 and bmin = 1128000 and bmax = 2000000
             and wcap = 1280 and hcap = 1080]
       product
  have fail: "\<not> meetsRestrictions exampleArithmetic
      (exampleVariant\<lparr>video := Some (exampleVideo\<lparr>width := Num 1280, height := Num 720\<rparr>),
         bandwidth_v := Num 1128000\<rparr>)
      \<lparr>minWidth = Num 1280, maxWidth = Num 1920, minHeight = Num 0, maxHeight = Num 720,
       minPixels = Num 0, maxPixels = Num 921599,
       minBandwidth = Num 1128000, maxBandwidth = Num 2000000\<rparr>
      \<lparr>width_hw = Num 1280, height_hw = Num 1080\<rparr>"
    by simp
  from product pass fail show ?thesis by blast
qed

text \<open>
  C5. \<open>applyRestrictions\<close> sets the flag \<open>allowedByApplication\<close> of every variant of the
  period to the value of \<open>meetsRestrictions\<close> on it, returns true exactly when the flag
  of at least one variant changed, and returns false when called again with the same
  restrictions and hardware cap on the period it produced.
\<close>

theorem applyRestrictions_sets_flags_and_reports_change:
  "snd (applyRestrictions arith period restrictions maxHwRes) =
     period\<lparr>variants :=
       map (\<lambda>v. v\<lparr>allowedByApplication := meetsRestrictions arith v restrictions maxHwRes\<rparr>)
         (variants period)\<rparr> \<and>
   (fst (applyRestrictions arith period restrictions maxHwRes) \<longleftrightarrow>
      list_ex (\<lambda>v. allowedByApplication v \<noteq> meetsRestrictions arith v restrictions maxHwRes)
        (variants period)) \<and>
   fst (applyRestrictions arith (snd (applyRestrictions arith period restrictions maxHwRes))
          restrictions maxHwRes) = False"
  by (simp add: applyRestrictions_def applyRestrictions_forEach_eq
        meetsRestrictions_allowed_update list_ex_iff)

text \<open>
  The example variant meets restrictions that allow everything; when its flag was
  false, the first call reports a change and the second does not.
\<close>

theorem applyRestrictions_sets_flags_and_reports_change_witness:
  "fst (applyRestrictions exampleArithmetic
          \<lparr> startTime = Num 0,
            variants = [exampleVariant\<lparr>allowedByApplication := False\<rparr>],
            textStreams = [] \<rparr>
          \<lparr>minWidth = Num 0, maxWidth = Infinity, minHeight = Num 0, maxHeight = Infinity,
           minPixels = Num 0, maxPixels = Infinity,
           minBandwidth = Num 0, maxBandwidth = Infinity\<rparr>
          \<lparr>width_hw = Infinity, height_hw = Infinity\<rparr>) \<and>
   variants (snd (applyRestrictions exampleArithmetic
          \<lparr> startTime = Num 0,
            variants = [exampleVariant\<lparr>allowedByApplication := False\<rparr>],
            textStreams = [] \<rparr>
          \<lparr>minWidth = Num 0, maxWidth = Infinity, minHeight = Num 0, maxHeight = Infinity,
           minPixels = Num 0, maxPixels = Infinity,
           minBandwidth = Num 0, maxBandwidth = Infinity\<rparr>
          \<lparr>width_hw = Infinity, height_hw = Infinity\<rparr>)) = [exampleVariant] \<and>
   \<not> fst (applyRestrictions exampleArithmetic
          (snd (applyRestrictions exampleArithmetic
             \<lparr> startTime = Num 0,
               variants = [exampleVariant\<lparr>allowedByApplication := False\<rparr>],
               textStreams = [] \<rparr>
             \<lparr>minWidth = Num 0, maxWidth = Infinity, minHeight = Num 0, maxHeight = Infinity,
              minPixels = Num 0, maxPixels = Infinity,
              minBandwidth = Num 0, maxBandwidth = Infinity\<rparr>
             \<lparr>width_hw = Infinity, height_hw = Infinity\<rparr>))
          \<lparr>minWidth = Num 0, maxWidth = Infinity, minHeight = Num 0, maxHeight = Infinity,
           minPixels = Num 0, maxPixels = Infinity,
           minBandwidth = Num 0, maxBandwidth = Infinity\<rparr>
          \<lparr>width_hw = Infinity, height_hw = Infinity\<rparr>)"
proof -
  have meets: "meetsRestrictions exampleArithmetic
          (exampleVariant\<lparr>allowedByApplication := False\<rparr>)
          \<lparr>minWidth = Num 0, maxWidth = Infinity, minHeight = Num 0, maxHeight = Infinity,
           minPixels = Num 0, maxPixels = Infinity,
           minBandwidth = Num 0, maxBandwidth = Infinity\<rparr>
          \<lparr>width_hw = Infinity, height_hw = Infinity\<rparr>"
    by (simp add: meetsRestrictions_def gt_n_def exampleVariant_def exampleVideo_def
          exampleArithmetic_def)
  note facts = applyRestrictions_sets_flags_and_reports_change
            [of exampleArithmetic
                "\<lparr> startTime = Num 0,
                    variants = [exampleVariant\<lparr>allowedByApplication := False\<rparr>],
                    textStreams = [] \<rparr>"
                "\<lparr>minWidth = Num 0, maxWidth = Infinity, minHeight = Num 0,
                  maxHeight = Infinity, minPixels = Num 0, maxPixels = Infinity,
                  minBandwidth = Num 0, maxBandwidth = Infinity\<rparr>"
                "\<lparr>width_hw = Infinity, height_hw = Infinity\<rparr>"]
  from facts [THEN conjunct2, THEN conjunct1] meets
  have changed: "fst (applyRestrictions exampleArithmetic
          \<lparr> startTime = Num 0,
            variants = [exampleVariant\<lparr>allowedByApplication := False\<rparr>],
            textStreams = [] \<rparr>
          \<lparr>minWidth = Num 0, maxWidth = Infinity, minHeight = Num 0, maxHeight = Infinity,
           minPixels = Num 0, maxPixels = Infinity,
           minBandwidth = Num 0, maxBandwidth = Infinity\<rparr>
          \<lparr>width_hw = Infinity, height_hw = Infinity\<rparr>)"
    by simp
  from facts [THEN conjunct1] meets
  have flags: "variants (snd (applyRestrictions exampleArithmetic
          \<lparr> startTime = Num 0,
            variants = [exampleVariant\<lparr>allowedByApplication := False\<rparr>],
            textStreams = [] \<rparr>
          \<lparr>minWidth = Num 0, maxWidth = Infinity, minHeight = Num 0, maxHeight = Infinity,
           minPixels = Num 0, maxPixels = Infinity,
           minBandwidth = Num 0, maxBandwidth = Infinity\<rparr>
          \<lparr>width_hw = Infinity, height_hw = Infinity\<rparr>)) = [exampleVariant]"
    by (simp add: exampleVariant_def)
  from facts [THEN conjunct2, THEN conjunct2] changed flags
  show ?thesis by blast
qed


text \<open>
  C6. \<open>getPlayableVariants\<close> is the input filtered by \<open>allowedByApplication\<close> and
  \<open>allowedByKeySystem\<close>, a subsequence of the input in the same order, and \<open>isPlayable\<close>
  is that conjunction.
\<close>

theorem getPlayableVariants_stable_filter:
  "getPlayableVariants vs =
     filter (\<lambda>v. allowedByApplication v \<and> allowedByKeySystem v) vs \<and>
   subseq (getPlayableVariants vs) vs \<and>
   (isPlayable v \<longleftrightarrow> allowedByApplication v \<and> allowedByKeySystem v)"
  by (simp add: getPlayableVariants_def isPlayable_def)


section \<open>Language and role selector: theorems\<close>

lemma foldl_collapseArrays: "foldl collapseArrays acc xss = acc @ concat xss"
  by (induction xss arbitrary: acc) (simp_all add: collapseArrays_def)

lemma filterVariantsByRole_variantRoles:
  "filterVariantsByRole vs r = filter (\<lambda>v. r \<in> set (variantRoles v)) vs"
  unfolding filterVariantsByRole_def variantRoles_def
  by (rule filter_cong) (auto split: option.splits)

lemma refineVariantsByRole_eq:
  "refineVariantsByRole chosen r =
     (if r \<noteq> [] \<and> filterVariantsByRole chosen r \<noteq> [] then filterVariantsByRole chosen r
      else case concat (map variantRoles chosen) of
             [] \<Rightarrow> chosen
           | role # others \<Rightarrow> filterVariantsByRole chosen role)"
proof -
  have eq: "(\<lambda>variant.
           (case audio variant of None \<Rightarrow> [] | Some a \<Rightarrow> roles a) @
           (case video variant of None \<Rightarrow> [] | Some v \<Rightarrow> roles v)) = variantRoles"
    by (rule ext) (simp add: variantRoles_def)
  show ?thesis
    unfolding refineVariantsByRole_def Let_def foldl_collapseArrays eq by simp
qed

lemma refineStreamsByRole_eq:
  "refineStreamsByRole chosen r =
     (if r \<noteq> [] \<and> filterTextStreamsByRole chosen r \<noteq> [] then filterTextStreamsByRole chosen r
      else case concat (map roles chosen) of
             [] \<Rightarrow> chosen
           | role # others \<Rightarrow> filterTextStreamsByRole chosen role)"
  by (simp add: refineStreamsByRole_def Let_def foldl_collapseArrays)

text \<open>The first role of a selection is exposed by one of its entries.\<close>

lemma first_role_exposed:
  "concat (map f xs) = r # rs \<Longrightarrow> filter (\<lambda>x. r \<in> set (f x)) xs \<noteq> []"
proof -
  assume a: "concat (map f xs) = r # rs"
  then have "r \<in> set (concat (map f xs))" by simp
  then obtain x where "x \<in> set xs" "r \<in> set (f x)" by auto
  then show ?thesis by (auto simp: filter_empty_conv)
qed

lemma refineVariantsByRole_nonempty: "chosen \<noteq> [] \<Longrightarrow> refineVariantsByRole chosen r \<noteq> []"
  by (auto simp: refineVariantsByRole_eq filterVariantsByRole_variantRoles
           split: list.splits dest: first_role_exposed)

lemma refineVariantsByRole_subset: "set (refineVariantsByRole chosen r) \<subseteq> set chosen"
  by (auto simp: refineVariantsByRole_eq filterVariantsByRole_variantRoles split: list.splits)


lemma refineStreamsByRole_subset: "set (refineStreamsByRole chosen r) \<subseteq> set chosen"
  by (auto simp: refineStreamsByRole_eq filterTextStreamsByRole_def split: list.splits)

text \<open>The language loops keep the selection non-empty and inside a given set.\<close>

lemma variantLanguage_forEach_inv:
  "variantLanguage_forEach L t vs (pref, chosen, found, flag) = (pref', chosen', found', flag')
   \<Longrightarrow> set chosen \<subseteq> A \<Longrightarrow> set vs \<subseteq> A \<Longrightarrow> chosen \<noteq> []
   \<Longrightarrow> set chosen' \<subseteq> A \<and> chosen' \<noteq> []"
proof (induction vs arbitrary: pref chosen found flag)
  case Nil
  then show ?case by simp
next
  case (Cons v vs)
  show ?case
  proof (cases "match_l L t (normalize_l L pref) (normalize_l L (language_v v))")
    case True
    with Cons.prems(1) have
      "variantLanguage_forEach L t vs
         (normalize_l L pref, (if found then chosen @ [v] else [v]), True, True)
       = (pref', chosen', found', flag')"
      by (simp add: Let_def)
    from Cons.IH [OF this] Cons.prems(2,3) show ?thesis by auto
  next
    case False
    with Cons.prems(1) have
      "variantLanguage_forEach L t vs (normalize_l L pref, chosen, found, flag)
       = (pref', chosen', found', flag')"
      by (simp add: Let_def)
    from Cons.IH [OF this] Cons.prems(2,3,4) show ?thesis by auto
  qed
qed

lemma variantMatchType_forEach_inv:
  "variantMatchType_forEach L ts vs (pref, chosen, flag) = (pref', chosen', flag')
   \<Longrightarrow> set chosen \<subseteq> A \<Longrightarrow> set vs \<subseteq> A \<Longrightarrow> chosen \<noteq> []
   \<Longrightarrow> set chosen' \<subseteq> A \<and> chosen' \<noteq> []"
proof (induction ts arbitrary: pref chosen flag)
  case Nil
  then show ?case by simp
next
  case (Cons t ts)
  obtain p1 c1 f1 g1 where
    step: "variantLanguage_forEach L t vs (pref, chosen, False, flag) = (p1, c1, f1, g1)"
    by (metis prod_cases4)
  from variantLanguage_forEach_inv [OF step Cons.prems(2,3,4)]
  have c1: "set c1 \<subseteq> A" "c1 \<noteq> []" by simp_all
  from Cons.prems(1) step have
    "variantMatchType_forEach L ts vs (p1, c1, g1) = (pref', chosen', flag')"
    by simp
  from Cons.IH [OF this c1(1) Cons.prems(3) c1(2)] show ?case .
qed

lemma first_language_filter_nonempty:
  "c0 \<noteq> [] \<Longrightarrow>
   filter (\<lambda>x. lang x = (case c0 of [] \<Rightarrow> [] | first # rest \<Rightarrow> lang first)) c0 \<noteq> []"
  by (cases c0) auto

lemma chosenVariantsByLanguage_inv:
  assumes "getPlayableVariants vs \<noteq> []"
  shows "set (fst (chosenVariantsByLanguage L vs p)) \<subseteq> set (getPlayableVariants vs) \<and>
         fst (chosenVariantsByLanguage L vs p) \<noteq> []"
proof -
  define playable where "playable = getPlayableVariants vs"
  define primary where "primary = filter primary_v playable"
  define c0 where "c0 = (if primary \<noteq> [] then primary else playable)"
  define c1 where "c1 = filter (\<lambda>variant. language_v variant =
             (case c0 of [] \<Rightarrow> [] | first # rest \<Rightarrow> language_v first)) c0"
  have "playable \<noteq> []" using assms by (simp add: playable_def)
  then have "c0 \<noteq> []" by (simp add: c0_def)
  then have ne: "c1 \<noteq> []"
    unfolding c1_def by (rule first_language_filter_nonempty)
  have sub: "set c1 \<subseteq> set playable"
    by (auto simp: c1_def c0_def primary_def)
  have unfold: "chosenVariantsByLanguage L vs p =
     (if p \<noteq> []
      then (case variantMatchType_forEach L
                   [OTHER_SUB_LANGUAGE_OKAY, BASE_LANGUAGE_OKAY, EXACT] playable
                   (normalize_l L p, c1, False) of
              (pref, chosen', languageMatches) \<Rightarrow> (chosen', languageMatches))
      else (c1, False))"
    unfolding chosenVariantsByLanguage_def Let_def c1_def c0_def primary_def playable_def ..
  show ?thesis
  proof (cases "p = []")
    case True
    show ?thesis unfolding unfold using True ne sub by (simp add: playable_def)
  next
    case False
    obtain p' c' g' where
      run: "variantMatchType_forEach L [OTHER_SUB_LANGUAGE_OKAY, BASE_LANGUAGE_OKAY, EXACT]
              playable (normalize_l L p, c1, False) = (p', c', g')"
      by (metis prod_cases3)
    from variantMatchType_forEach_inv [OF run sub _ ne]
    have "set c' \<subseteq> set playable \<and> c' \<noteq> []" by simp
    moreover have "fst (chosenVariantsByLanguage L vs p) = c'"
      unfolding unfold using False run by simp
    ultimately show ?thesis by (simp add: playable_def)
  qed
qed

lemma chosenVariantsByLanguage_unfold:
  assumes "p \<noteq> []"
  shows "chosenVariantsByLanguage L vs p =
     (case variantMatchType_forEach L [OTHER_SUB_LANGUAGE_OKAY, BASE_LANGUAGE_OKAY, EXACT]
             (getPlayableVariants vs)
             (normalize_l L p, fst (chosenVariantsByLanguage L vs []), False) of
        (pref, chosen', languageMatches) \<Rightarrow> (chosen', languageMatches))"
proof -
  have no_pref: "fst (chosenVariantsByLanguage L vs []) =
      filter (\<lambda>variant. language_v variant =
          (case (if filter (\<lambda>variant. primary_v variant) (getPlayableVariants vs) \<noteq> []
                 then filter (\<lambda>variant. primary_v variant) (getPlayableVariants vs)
                 else getPlayableVariants vs) of
             [] \<Rightarrow> [] | first # rest \<Rightarrow> language_v first))
        (if filter (\<lambda>variant. primary_v variant) (getPlayableVariants vs) \<noteq> []
         then filter (\<lambda>variant. primary_v variant) (getPlayableVariants vs)
         else getPlayableVariants vs)"
    unfolding chosenVariantsByLanguage_def Let_def by simp
  show ?thesis
    unfolding no_pref unfolding chosenVariantsByLanguage_def Let_def
    using assms by (simp only: if_True simp_thms)
qed

lemma chosenStreamsByLanguage_unfold:
  assumes "p \<noteq> []"
  shows "chosenStreamsByLanguage L streams p =
     streamMatchType_forEach L [OTHER_SUB_LANGUAGE_OKAY, BASE_LANGUAGE_OKAY, EXACT]
       (normalize_l L p) streams (fst (chosenStreamsByLanguage L streams []), False)"
proof -
  have no_pref: "fst (chosenStreamsByLanguage L streams []) =
      filter (\<lambda>stream. language_s stream =
          (case (if filter (\<lambda>stream. primary_s stream) streams \<noteq> []
                 then filter (\<lambda>stream. primary_s stream) streams else streams) of
             [] \<Rightarrow> [] | first # rest \<Rightarrow> language_s first))
        (if filter (\<lambda>stream. primary_s stream) streams \<noteq> []
         then filter (\<lambda>stream. primary_s stream) streams else streams)"
    unfolding chosenStreamsByLanguage_def Let_def by simp
  show ?thesis
    unfolding no_pref unfolding chosenStreamsByLanguage_def Let_def
    using assms by (simp only: if_True simp_thms)
qed

text \<open>
  One tier of the language search: with no match the selection stays; otherwise the
  first match replaces it and the later ones are appended.
\<close>

lemma variantLanguage_forEach_eq:
  assumes "normalize_l L pref = pref"
  shows "variantLanguage_forEach L t vs (pref, chosen, found, flag) =
     (pref,
      (if filter (\<lambda>v. match_l L t pref (normalize_l L (language_v v))) vs = [] then chosen
       else if found
         then chosen @ filter (\<lambda>v. match_l L t pref (normalize_l L (language_v v))) vs
         else filter (\<lambda>v. match_l L t pref (normalize_l L (language_v v))) vs),
      found \<or> filter (\<lambda>v. match_l L t pref (normalize_l L (language_v v))) vs \<noteq> [],
      flag \<or> filter (\<lambda>v. match_l L t pref (normalize_l L (language_v v))) vs \<noteq> [])"
  using assms by (induction vs arbitrary: chosen found flag) (simp_all add: Let_def)

lemma streamLanguage_forEach_eq:
  "streamLanguage_forEach L t pref ss (chosen, found, flag) =
     ((if filter (\<lambda>s. match_l L t pref (normalize_l L (language_s s))) ss = [] then chosen
       else if found
         then chosen @ filter (\<lambda>s. match_l L t pref (normalize_l L (language_s s))) ss
         else filter (\<lambda>s. match_l L t pref (normalize_l L (language_s s))) ss),
      found \<or> filter (\<lambda>s. match_l L t pref (normalize_l L (language_s s))) ss \<noteq> [],
      flag \<or> filter (\<lambda>s. match_l L t pref (normalize_l L (language_s s))) ss \<noteq> [])"
  by (induction ss arbitrary: chosen found flag) (simp_all add: Let_def)

lemma chosenVariantsByLanguage_tiers:
  assumes "p \<noteq> []" and "normalize_l L (normalize_l L p) = normalize_l L p"
  shows "fst (chosenVariantsByLanguage L vs p) =
     (if variantTierMatches L EXACT p (getPlayableVariants vs) \<noteq> []
      then variantTierMatches L EXACT p (getPlayableVariants vs)
      else if variantTierMatches L BASE_LANGUAGE_OKAY p (getPlayableVariants vs) \<noteq> []
      then variantTierMatches L BASE_LANGUAGE_OKAY p (getPlayableVariants vs)
      else if variantTierMatches L OTHER_SUB_LANGUAGE_OKAY p (getPlayableVariants vs) \<noteq> []
      then variantTierMatches L OTHER_SUB_LANGUAGE_OKAY p (getPlayableVariants vs)
      else fst (chosenVariantsByLanguage L vs []))"
  unfolding chosenVariantsByLanguage_unfold [OF assms(1)] variantTierMatches_def
  by (simp add: variantLanguage_forEach_eq [OF assms(2)])

lemma chosenStreamsByLanguage_tiers:
  assumes "p \<noteq> []"
  shows "fst (chosenStreamsByLanguage L streams p) =
     (if streamTierMatches L EXACT p streams \<noteq> []
      then streamTierMatches L EXACT p streams
      else if streamTierMatches L BASE_LANGUAGE_OKAY p streams \<noteq> []
      then streamTierMatches L BASE_LANGUAGE_OKAY p streams
      else if streamTierMatches L OTHER_SUB_LANGUAGE_OKAY p streams \<noteq> []
      then streamTierMatches L OTHER_SUB_LANGUAGE_OKAY p streams
      else fst (chosenStreamsByLanguage L streams []))"
  unfolding chosenStreamsByLanguage_unfold [OF assms(1)] streamTierMatches_def
  by (simp add: streamLanguage_forEach_eq)



lemmas example_defs =
  exampleVariant_def exampleCommentaryVariant_def exampleVariantIn_def exampleTextIn_def
  exampleLanguageUtils_def



text \<open>
  C1. With a preferred language, the selection before the role preference is made of the
  matches of one tier, taken over the playable variants (the streams, for text) in
  their order: the exact matches when there is one, otherwise the base-language
  matches, otherwise the matches of another sub-language, otherwise the selection made
  without a preferred language. So an exact match, wherever it stands in the input,
  leaves exactly the exact matches. For variants the source normalizes \<open>pref\<close> again at
  every variant, so the statement is for a preference whose normal form is stable under
  \<open>normalize\<close>.
\<close>

theorem language_tiers_exact_match_wins:
  assumes "preferredLanguage \<noteq> []"
  shows
  "(normalize_l L (normalize_l L preferredLanguage) = normalize_l L preferredLanguage \<longrightarrow>
      fst (chosenVariantsByLanguage L vs preferredLanguage) =
        (if variantTierMatches L EXACT preferredLanguage (getPlayableVariants vs) \<noteq> []
         then variantTierMatches L EXACT preferredLanguage (getPlayableVariants vs)
         else if variantTierMatches L BASE_LANGUAGE_OKAY preferredLanguage
                   (getPlayableVariants vs) \<noteq> []
         then variantTierMatches L BASE_LANGUAGE_OKAY preferredLanguage (getPlayableVariants vs)
         else if variantTierMatches L OTHER_SUB_LANGUAGE_OKAY preferredLanguage
                   (getPlayableVariants vs) \<noteq> []
         then variantTierMatches L OTHER_SUB_LANGUAGE_OKAY preferredLanguage
                (getPlayableVariants vs)
         else fst (chosenVariantsByLanguage L vs [])) \<and>
      (variantTierMatches L EXACT preferredLanguage (getPlayableVariants vs) \<noteq> [] \<longrightarrow>
         fst (chosenVariantsByLanguage L vs preferredLanguage) =
           variantTierMatches L EXACT preferredLanguage (getPlayableVariants vs))) \<and>
   fst (chosenStreamsByLanguage L streams preferredLanguage) =
     (if streamTierMatches L EXACT preferredLanguage streams \<noteq> []
      then streamTierMatches L EXACT preferredLanguage streams
      else if streamTierMatches L BASE_LANGUAGE_OKAY preferredLanguage streams \<noteq> []
      then streamTierMatches L BASE_LANGUAGE_OKAY preferredLanguage streams
      else if streamTierMatches L OTHER_SUB_LANGUAGE_OKAY preferredLanguage streams \<noteq> []
      then streamTierMatches L OTHER_SUB_LANGUAGE_OKAY preferredLanguage streams
      else fst (chosenStreamsByLanguage L streams [])) \<and>
   (streamTierMatches L EXACT preferredLanguage streams \<noteq> [] \<longrightarrow>
      fst (chosenStreamsByLanguage L streams preferredLanguage) =
        streamTierMatches L EXACT preferredLanguage streams)"
proof (intro conjI impI)
  assume idem: "normalize_l L (normalize_l L preferredLanguage) = normalize_l L preferredLanguage"
  show v: "fst (chosenVariantsByLanguage L vs preferredLanguage) =
        (if variantTierMatches L EXACT preferredLanguage (getPlayableVariants vs) \<noteq> []
         then variantTierMatches L EXACT preferredLanguage (getPlayableVariants vs)
         else if variantTierMatches L BASE_LANGUAGE_OKAY preferredLanguage
                   (getPlayableVariants vs) \<noteq> []
         then variantTierMatches L BASE_LANGUAGE_OKAY preferredLanguage (getPlayableVariants vs)
         else if variantTierMatches L OTHER_SUB_LANGUAGE_OKAY preferredLanguage
                   (getPlayableVariants vs) \<noteq> []
         then variantTierMatches L OTHER_SUB_LANGUAGE_OKAY preferredLanguage
                (getPlayableVariants vs)
         else fst (chosenVariantsByLanguage L vs []))"
    by (rule chosenVariantsByLanguage_tiers [OF assms idem])
  assume "variantTierMatches L EXACT preferredLanguage (getPlayableVariants vs) \<noteq> []"
  with v show "fst (chosenVariantsByLanguage L vs preferredLanguage) =
           variantTierMatches L EXACT preferredLanguage (getPlayableVariants vs)"
    by simp
next
  show s: "fst (chosenStreamsByLanguage L streams preferredLanguage) =
     (if streamTierMatches L EXACT preferredLanguage streams \<noteq> []
      then streamTierMatches L EXACT preferredLanguage streams
      else if streamTierMatches L BASE_LANGUAGE_OKAY preferredLanguage streams \<noteq> []
      then streamTierMatches L BASE_LANGUAGE_OKAY preferredLanguage streams
      else if streamTierMatches L OTHER_SUB_LANGUAGE_OKAY preferredLanguage streams \<noteq> []
      then streamTierMatches L OTHER_SUB_LANGUAGE_OKAY preferredLanguage streams
      else fst (chosenStreamsByLanguage L streams []))"
    by (rule chosenStreamsByLanguage_tiers [OF assms])
  assume "streamTierMatches L EXACT preferredLanguage streams \<noteq> []"
  with s show "fst (chosenStreamsByLanguage L streams preferredLanguage) =
        streamTierMatches L EXACT preferredLanguage streams"
    by simp
qed

text \<open>
  Four variants in \<open>fr\<close> (primary), \<open>en\<close>, \<open>en-GB\<close> and \<open>en-US\<close> with the preference
  \<open>en-US\<close>: the exact match is chosen, though it comes last and is not primary.
\<close>

theorem language_tiers_exact_match_wins_witness:
  "''en-US'' \<noteq> [] \<and>
   normalize_l exampleLanguageUtils (normalize_l exampleLanguageUtils ''en-US'') =
     normalize_l exampleLanguageUtils ''en-US'' \<and>
   variantTierMatches exampleLanguageUtils EXACT ''en-US''
     (getPlayableVariants
        [(exampleVariantIn ''fr'')\<lparr>primary_v := True\<rparr>, exampleVariantIn ''en'',
         exampleVariantIn ''en-GB'', exampleVariantIn ''en-US'']) \<noteq> [] \<and>
   fst (chosenVariantsByLanguage exampleLanguageUtils
          [(exampleVariantIn ''fr'')\<lparr>primary_v := True\<rparr>, exampleVariantIn ''en'',
           exampleVariantIn ''en-GB'', exampleVariantIn ''en-US''] ''en-US'') =
     [exampleVariantIn ''en-US''] \<and>
   streamTierMatches exampleLanguageUtils EXACT ''en-US''
     [exampleTextIn ''en-US'', exampleTextIn ''fr'', exampleTextIn ''en''] \<noteq> [] \<and>
   fst (chosenStreamsByLanguage exampleLanguageUtils
          [exampleTextIn ''en-US'', exampleTextIn ''fr'', exampleTextIn ''en''] ''en-US'') =
     [exampleTextIn ''en-US'']"
proof -
  have h: "''en-US'' \<noteq> []" by simp
  show ?thesis
    using language_tiers_exact_match_wins [OF h, of exampleLanguageUtils
        "[(exampleVariantIn ''fr'')\<lparr>primary_v := True\<rparr>, exampleVariantIn ''en'',
          exampleVariantIn ''en-GB'', exampleVariantIn ''en-US'']"
        "[exampleTextIn ''en-US'', exampleTextIn ''fr'', exampleTextIn ''en'']"]
    by (simp add: variantTierMatches_def streamTierMatches_def getPlayableVariants_def
          isPlayable_def example_defs)
qed






text \<open>
  C10. When a variant is playable, \<open>filterVariantsByLanguageAndRole\<close> returns a list
  that is not empty and holds playable variants of the input only, whatever the
  preferred language and role, and whatever the language utilities do.
\<close>

theorem filterVariantsByLanguageAndRole_nonempty_playable:
  "getPlayableVariants vs \<noteq> [] \<Longrightarrow>
   filterVariantsByLanguageAndRole L vs preferredLanguage preferredRole \<noteq> [] \<and>
   set (filterVariantsByLanguageAndRole L vs preferredLanguage preferredRole)
     \<subseteq> set (getPlayableVariants vs)"
  using chosenVariantsByLanguage_inv [of vs L preferredLanguage]
        refineVariantsByRole_nonempty
          [of "fst (chosenVariantsByLanguage L vs preferredLanguage)" preferredRole]
        refineVariantsByRole_subset
          [of "fst (chosenVariantsByLanguage L vs preferredLanguage)" preferredRole]
  by (auto simp: filterVariantsByLanguageAndRole_def)

text \<open>
  One variant is not allowed and the other is; no variant is in \<open>fr\<close> and none has the
  role \<open>sign\<close>: the result is not empty and holds the allowed variant only.
\<close>

theorem filterVariantsByLanguageAndRole_nonempty_playable_witness:
  "getPlayableVariants
     [exampleVariant\<lparr>allowedByApplication := False\<rparr>, exampleCommentaryVariant] \<noteq> [] \<and>
   filterVariantsByLanguageAndRole exampleLanguageUtils
     [exampleVariant\<lparr>allowedByApplication := False\<rparr>, exampleCommentaryVariant]
     ''fr'' ''sign'' \<noteq> [] \<and>
   set (filterVariantsByLanguageAndRole exampleLanguageUtils
          [exampleVariant\<lparr>allowedByApplication := False\<rparr>, exampleCommentaryVariant]
          ''fr'' ''sign'')
     \<subseteq> {exampleCommentaryVariant}"
proof -
  have h: "getPlayableVariants
     [exampleVariant\<lparr>allowedByApplication := False\<rparr>, exampleCommentaryVariant] =
     [exampleCommentaryVariant]"
    by (simp add: getPlayableVariants_def isPlayable_def example_defs)
  then have ne: "getPlayableVariants
     [exampleVariant\<lparr>allowedByApplication := False\<rparr>, exampleCommentaryVariant] \<noteq> []"
    by simp
  show ?thesis
    using filterVariantsByLanguageAndRole_nonempty_playable
            [OF ne, of exampleLanguageUtils "''fr''" "''sign''"]
    by (simp add: h)
qed

section \<open>Compatibility filter: theorems\<close>

lemma isStreamCompatible_None: "isStreamCompatible P None drm a = Inr True"
  by (simp add: isStreamCompatible_def)

lemma isStreamCompatible_Some:
  "isStreamCompatible P (Some s) drm a =
     (if type_s s = TEXT then Inl AssertionError else Inr (streamCompatible P drm s a))"
  by (auto simp: isStreamCompatible_def streamCompatible_def split_dot_first_def Let_def
           split: option.splits)

lemma isVariantCompatible_Inr:
  "isVariantCompatible P v drm aa av = Inr keep \<Longrightarrow> keep = variantSurvives P drm aa av v"
  by (auto simp: isVariantCompatible_def variantSurvives_def isStreamCompatible_None
                 isStreamCompatible_Some
           split: option.splits if_splits sum.splits)

lemma isVariantCompatible_total:
  "(case audio v of None \<Rightarrow> True | Some a \<Rightarrow> type_s a \<noteq> TEXT) \<Longrightarrow>
   (case video v of None \<Rightarrow> True | Some s \<Rightarrow> type_s s \<noteq> TEXT) \<Longrightarrow>
   \<exists>keep. isVariantCompatible P v drm aa av = Inr keep"
  by (auto simp: isVariantCompatible_def isStreamCompatible_None isStreamCompatible_Some
           split: option.splits)

lemma filter_throwing_Inr:
  "filter_throwing f xs = Inr ys \<Longrightarrow>
   (\<And>x keep. x \<in> set xs \<Longrightarrow> f x = Inr keep \<Longrightarrow> keep = p x) \<Longrightarrow>
   ys = filter p xs"
proof (induction xs arbitrary: ys)
  case Nil
  then show ?case by simp
next
  case (Cons x xs)
  from Cons.prems(1) obtain keep zs where
    fx: "f x = Inr keep" and rest: "filter_throwing f xs = Inr zs"
    and ys: "ys = (if keep then x # zs else zs)"
    by (auto split: sum.splits)
  have "keep = p x" using Cons.prems(2) [of x keep] fx by simp
  moreover have "zs = filter p xs"
    using Cons.IH [OF rest] Cons.prems(2) by simp
  ultimately show ?case using ys by simp
qed

lemma filter_throwing_total:
  "(\<And>x. x \<in> set xs \<Longrightarrow> \<exists>keep. f x = Inr keep) \<Longrightarrow> \<exists>ys. filter_throwing f xs = Inr ys"
proof (induction xs)
  case Nil
  then show ?case by simp
next
  case (Cons x xs)
  from Cons.prems [of x] obtain keep where "f x = Inr keep" by auto
  moreover from Cons.IH Cons.prems obtain zs where "filter_throwing f xs = Inr zs" by auto
  ultimately show ?case by simp
qed

text \<open>
  C3. When \<open>filterNewPeriod\<close> returns, the variants of the period are the variants it had
  that survive, in their order: the initialized DRM engine supports the variant, and
  each stream the variant has can be decoded by the platform, has its full MIME type
  among the supported types of the initialized DRM engine when it is encrypted, and has
  the MIME type and the codec prefix before the first dot of the active stream of its
  kind when there is one. The text streams of the period are those it had whose full
  MIME type the text engine supports, in their order. It returns whenever the active
  streams have their types and no variant holds a text stream.
\<close>

theorem filterNewPeriod_keeps_compatible:
  "(filterNewPeriod platform drmEngine activeAudio activeVideo period = Inr period' \<longrightarrow>
      variants period' =
        filter (variantSurvives platform drmEngine activeAudio activeVideo) (variants period) \<and>
      textStreams period' = filter (textStreamSurvives platform) (textStreams period) \<and>
      startTime period' = startTime period \<and>
      subseq (variants period') (variants period) \<and>
      subseq (textStreams period') (textStreams period)) \<and>
   (wellTypedStreams activeAudio activeVideo period \<longrightarrow>
      (\<exists>result. filterNewPeriod platform drmEngine activeAudio activeVideo period = Inr result))"
proof (intro conjI impI)
  assume ok: "filterNewPeriod platform drmEngine activeAudio activeVideo period = Inr period'"
  then obtain vs where
    run: "filter_throwing
            (\<lambda>variant. isVariantCompatible platform variant drmEngine activeAudio activeVideo)
            (variants period) = Inr vs"
    and p': "period' = period\<lparr>variants := vs,
               textStreams := filter (textStreamSurvives platform) (textStreams period)\<rparr>"
    unfolding filterNewPeriod_def textStreamSurvives_def [abs_def]
    by (auto split: if_splits sum.splits)
  have vs: "vs = filter (variantSurvives platform drmEngine activeAudio activeVideo)
                   (variants period)"
    using run by (rule filter_throwing_Inr) (rule isVariantCompatible_Inr)
  show "variants period' =
        filter (variantSurvives platform drmEngine activeAudio activeVideo) (variants period)"
    using p' vs by simp
  then show "subseq (variants period') (variants period)" by simp
  show "textStreams period' = filter (textStreamSurvives platform) (textStreams period)"
    using p' by simp
  then show "subseq (textStreams period') (textStreams period)" by simp
  show "startTime period' = startTime period" using p' by simp
next
  assume wt: "wellTypedStreams activeAudio activeVideo period"
  have "\<exists>vs. filter_throwing
            (\<lambda>variant. isVariantCompatible platform variant drmEngine activeAudio activeVideo)
            (variants period) = Inr vs"
  proof (rule filter_throwing_total)
    fix v assume "v \<in> set (variants period)"
    with wt have
      "(case audio v of None \<Rightarrow> True | Some a \<Rightarrow> type_s a \<noteq> TEXT)"
      "(case video v of None \<Rightarrow> True | Some s \<Rightarrow> type_s s \<noteq> TEXT)"
      by (auto simp: wellTypedStreams_def list_all_iff)
    then show "\<exists>keep. isVariantCompatible platform v drmEngine activeAudio activeVideo = Inr keep"
      by (rule isVariantCompatible_total)
  qed
  then obtain vs where "filter_throwing
            (\<lambda>variant. isVariantCompatible platform variant drmEngine activeAudio activeVideo)
            (variants period) = Inr vs" ..
  moreover from wt have
    "\<not> (case activeAudio of None \<Rightarrow> False | Some a \<Rightarrow> \<not> isAudio a)"
    "\<not> (case activeVideo of None \<Rightarrow> False | Some a \<Rightarrow> \<not> isVideo a)"
    by (auto simp: wellTypedStreams_def isAudio_def isVideo_def split: option.splits)
  ultimately show
    "\<exists>result. filterNewPeriod platform drmEngine activeAudio activeVideo period = Inr result"
    by (simp add: filterNewPeriod_def)
qed

text \<open>
  With an active \<open>avc1\<close> video stream, the variant whose video codec is \<open>hev1.1.6\<close> is
  dropped, and so is the text stream whose MIME type the text engine does not support.
\<close>

theorem filterNewPeriod_keeps_compatible_witness:
  "wellTypedStreams None (Some exampleVideo)
     \<lparr> startTime = Num 0,
       variants = [exampleVariant,
                   exampleVariant\<lparr>id_v := 12,
                     video := Some (exampleVideo\<lparr>codecs := ''hev1.1.6''\<rparr>)\<rparr>],
       textStreams = [exampleText, exampleText\<lparr>mimeType := ''application/ttml+xml''\<rparr>] \<rparr> \<and>
   (case filterNewPeriod examplePlatform (Some exampleDrmEngine) None (Some exampleVideo)
           \<lparr> startTime = Num 0,
             variants = [exampleVariant,
                         exampleVariant\<lparr>id_v := 12,
                           video := Some (exampleVideo\<lparr>codecs := ''hev1.1.6''\<rparr>)\<rparr>],
             textStreams = [exampleText,
                            exampleText\<lparr>mimeType := ''application/ttml+xml''\<rparr>] \<rparr> of
      Inl e \<Rightarrow> False
    | Inr period' \<Rightarrow>
        variants period' = [exampleVariant] \<and> textStreams period' = [exampleText])"
proof -
  let ?period = "\<lparr> startTime = Num 0,
       variants = [exampleVariant,
                   exampleVariant\<lparr>id_v := 12,
                     video := Some (exampleVideo\<lparr>codecs := ''hev1.1.6''\<rparr>)\<rparr>],
       textStreams = [exampleText, exampleText\<lparr>mimeType := ''application/ttml+xml''\<rparr>] \<rparr>"
  have wt: "wellTypedStreams None (Some exampleVideo) ?period"
    by (simp add: wellTypedStreams_def exampleVariant_def exampleVideo_def exampleAudio_def)
  with filterNewPeriod_keeps_compatible
         [of examplePlatform "Some exampleDrmEngine" None "Some exampleVideo" ?period]
  obtain result where
    run: "filterNewPeriod examplePlatform (Some exampleDrmEngine) None (Some exampleVideo)
            ?period = Inr result"
    by blast
  have keep: "variantSurvives examplePlatform (Some exampleDrmEngine) None (Some exampleVideo)
                exampleVariant"
    by (simp add: variantSurvives_def streamCompatible_def exampleVariant_def
          exampleVideo_def exampleAudio_def examplePlatform_def exampleDrmEngine_def)
  have drop: "\<not> variantSurvives examplePlatform (Some exampleDrmEngine) None (Some exampleVideo)
                (exampleVariant\<lparr>id_v := 12,
                   video := Some (exampleVideo\<lparr>codecs := ''hev1.1.6''\<rparr>)\<rparr>)"
    by (simp add: variantSurvives_def streamCompatible_def exampleVariant_def
          exampleVideo_def exampleAudio_def examplePlatform_def exampleDrmEngine_def)
  have text_keep: "textStreamSurvives examplePlatform exampleText"
    by (simp add: textStreamSurvives_def exampleText_def examplePlatform_def)
  have text_drop: "\<not> textStreamSurvives examplePlatform
                       (exampleText\<lparr>mimeType := ''application/ttml+xml''\<rparr>)"
    by (simp add: textStreamSurvives_def exampleText_def examplePlatform_def)
  from filterNewPeriod_keeps_compatible
         [of examplePlatform "Some exampleDrmEngine" None "Some exampleVideo" ?period result]
       run
  have "variants result = [exampleVariant] \<and> textStreams result = [exampleText]"
    by (simp add: keep drop text_keep text_drop)
  with wt run show ?thesis by simp
qed

section \<open>Track projection: theorems\<close>

lemma set_removeDuplicates: "set (removeDuplicates xs) = set xs"
  by (induction xs rule: removeDuplicates.induct) auto

lemma distinct_removeDuplicates: "distinct (removeDuplicates xs)"
  by (induction xs rule: removeDuplicates.induct) (auto simp: set_removeDuplicates)

lemma removeDuplicates_snoc:
  "removeDuplicates (xs @ [x]) =
     (if x \<in> set xs then removeDuplicates xs else removeDuplicates xs @ [x])"
  by (induction xs rule: removeDuplicates.induct) auto

lemma nths_cong_below:
  "(\<And>i. i < length xs \<Longrightarrow> i \<in> A \<longleftrightarrow> i \<in> B) \<Longrightarrow> nths xs A = nths xs B"
  unfolding nths_def
  by (rule arg_cong [where f = "map fst"], rule filter_cong) (auto simp: set_zip)

text \<open>The entries kept are the first occurrences, in their order.\<close>

lemma removeDuplicates_first_occurrences:
  "removeDuplicates xs = nths xs {i. xs ! i \<notin> set (take i xs)}"
proof (induction xs rule: rev_induct)
  case Nil
  then show ?case by simp
next
  case (snoc x xs)
  have "nths xs {i. (xs @ [x]) ! i \<notin> set (take i (xs @ [x]))} =
        nths xs {i. xs ! i \<notin> set (take i xs)}"
    by (rule nths_cong_below) (simp add: nth_append)
  then show ?case
    by (simp add: removeDuplicates_snoc nths_append snoc.IH)
qed

lemma variantToTrack_codecs:
  "codecs_t (variantToTrack variant) =
     Some (join '', ''
       (filter (\<lambda>c. c \<noteq> [])
          ((case video variant of None \<Rightarrow> [] | Some v \<Rightarrow> [codecs v]) @
           (case audio variant of None \<Rightarrow> [] | Some a \<Rightarrow> [codecs a]))))"
  by (simp add: variantToTrack_def Let_def string_or_null_def split: option.splits)

lemma variantToTrack_mimeType:
  "mimeType_t (variantToTrack variant) =
     (case video variant of
        Some v \<Rightarrow> if mimeType v = [] then None else Some (mimeType v)
      | None \<Rightarrow>
          (case audio variant of
             Some a \<Rightarrow> if mimeType a = [] then None else Some (mimeType a)
           | None \<Rightarrow> None))"
  by (simp add: variantToTrack_def Let_def string_or_null_def split: option.splits)

lemma variantToTrack_roles:
  "roles_t (variantToTrack variant) = removeDuplicates (variantRoles variant)"
  by (simp add: variantToTrack_def Let_def variantRoles_def split: option.splits)

lemma variantToTrack_no_audio:
  "audio variant = None \<Longrightarrow>
   audioCodec_t (variantToTrack variant) = None \<and>
   audioId_t (variantToTrack variant) = None \<and>
   channelsCount_t (variantToTrack variant) = None \<and>
   audioBandwidth_t (variantToTrack variant) = None \<and>
   label_t (variantToTrack variant) = None"
  by (simp add: variantToTrack_def Let_def split: option.splits)

lemma variantToTrack_no_video:
  "video variant = None \<Longrightarrow>
   videoCodec_t (variantToTrack variant) = None \<and>
   videoId_t (variantToTrack variant) = None \<and>
   width_t (variantToTrack variant) = None \<and>
   height_t (variantToTrack variant) = None \<and>
   frameRate_t (variantToTrack variant) = None \<and>
   videoBandwidth_t (variantToTrack variant) = None"
  by (simp add: variantToTrack_def Let_def split: option.splits)

text \<open>
  C8, as stated, fails on a video stream whose MIME type is the empty string: the track
  has the MIME type \<open>null\<close>, not the one of the video stream.
\<close>

theorem variantToTrack_empty_mimeType_counterexample:
  "video (exampleVariant\<lparr>video := Some (exampleVideo\<lparr>mimeType := []\<rparr>)\<rparr>) =
     Some (exampleVideo\<lparr>mimeType := []\<rparr>) \<and>
   mimeType_t (variantToTrack (exampleVariant\<lparr>video := Some (exampleVideo\<lparr>mimeType := []\<rparr>)\<rparr>)) =
     None \<and>
   mimeType_t (variantToTrack (exampleVariant\<lparr>video := Some (exampleVideo\<lparr>mimeType := []\<rparr>)\<rparr>)) \<noteq>
     Some (mimeType (exampleVideo\<lparr>mimeType := []\<rparr>))"
  by (simp add: variantToTrack_def Let_def string_or_null_def exampleVariant_def)

text \<open>
  C8, amended. The codecs string of the track joins with a comma and a space the codec
  strings that are not empty, of the video stream and then of the audio stream, each
  when the variant has it. Its MIME type is the one of the video stream when the
  variant has one, otherwise the one of the audio stream, otherwise \<open>null\<close>; it is
  \<open>null\<close> when that MIME type is the empty string. Its roles are the audio roles followed
  by the video roles, each role kept where it first occurs. The audio fields are \<open>null\<close>
  without an audio stream and the video fields are \<open>null\<close> without a video stream.
\<close>

theorem variantToTrack_projection:
  "codecs_t (variantToTrack variant) =
     Some (join '', ''
       (filter (\<lambda>c. c \<noteq> [])
          ((case video variant of None \<Rightarrow> [] | Some v \<Rightarrow> [codecs v]) @
           (case audio variant of None \<Rightarrow> [] | Some a \<Rightarrow> [codecs a])))) \<and>
   (video variant = Some v \<and> audio variant = Some a \<and> codecs v \<noteq> [] \<and> codecs a \<noteq> [] \<longrightarrow>
      codecs_t (variantToTrack variant) = Some (codecs v @ '', '' @ codecs a)) \<and>
   mimeType_t (variantToTrack variant) =
     (case video variant of
        Some v \<Rightarrow> if mimeType v = [] then None else Some (mimeType v)
      | None \<Rightarrow>
          (case audio variant of
             Some a \<Rightarrow> if mimeType a = [] then None else Some (mimeType a)
           | None \<Rightarrow> None)) \<and>
   roles_t (variantToTrack variant) = removeDuplicates (variantRoles variant) \<and>
   roles_t (variantToTrack variant) =
     nths (variantRoles variant)
       {i. variantRoles variant ! i \<notin> set (take i (variantRoles variant))} \<and>
   distinct (roles_t (variantToTrack variant)) \<and>
   set (roles_t (variantToTrack variant)) = set (variantRoles variant) \<and>
   (audio variant = None \<longrightarrow>
      audioCodec_t (variantToTrack variant) = None \<and>
      audioId_t (variantToTrack variant) = None \<and>
      channelsCount_t (variantToTrack variant) = None \<and>
      audioBandwidth_t (variantToTrack variant) = None \<and>
      label_t (variantToTrack variant) = None) \<and>
   (video variant = None \<longrightarrow>
      videoCodec_t (variantToTrack variant) = None \<and>
      videoId_t (variantToTrack variant) = None \<and>
      width_t (variantToTrack variant) = None \<and>
      height_t (variantToTrack variant) = None \<and>
      frameRate_t (variantToTrack variant) = None \<and>
      videoBandwidth_t (variantToTrack variant) = None)"
proof (intro conjI impI)
  show "codecs_t (variantToTrack variant) =
     Some (join '', ''
       (filter (\<lambda>c. c \<noteq> [])
          ((case video variant of None \<Rightarrow> [] | Some v \<Rightarrow> [codecs v]) @
           (case audio variant of None \<Rightarrow> [] | Some a \<Rightarrow> [codecs a]))))"
    by (rule variantToTrack_codecs)
  show "mimeType_t (variantToTrack variant) =
     (case video variant of
        Some v \<Rightarrow> if mimeType v = [] then None else Some (mimeType v)
      | None \<Rightarrow>
          (case audio variant of
             Some a \<Rightarrow> if mimeType a = [] then None else Some (mimeType a)
           | None \<Rightarrow> None))"
    by (rule variantToTrack_mimeType)
  show "roles_t (variantToTrack variant) = removeDuplicates (variantRoles variant)"
    by (rule variantToTrack_roles)
  show "roles_t (variantToTrack variant) =
     nths (variantRoles variant)
       {i. variantRoles variant ! i \<notin> set (take i (variantRoles variant))}"
    unfolding variantToTrack_roles by (rule removeDuplicates_first_occurrences)
  show "distinct (roles_t (variantToTrack variant))"
    unfolding variantToTrack_roles by (rule distinct_removeDuplicates)
  show "set (roles_t (variantToTrack variant)) = set (variantRoles variant)"
    unfolding variantToTrack_roles by (rule set_removeDuplicates)
next
  assume "video variant = Some v \<and> audio variant = Some a \<and> codecs v \<noteq> [] \<and> codecs a \<noteq> []"
  then show "codecs_t (variantToTrack variant) = Some (codecs v @ '', '' @ codecs a)"
    by (simp add: variantToTrack_codecs)
next
  assume na: "audio variant = None"
  from variantToTrack_no_audio [OF na]
  show "audioCodec_t (variantToTrack variant) = None"
    and "audioId_t (variantToTrack variant) = None"
    and "channelsCount_t (variantToTrack variant) = None"
    and "audioBandwidth_t (variantToTrack variant) = None"
    and "label_t (variantToTrack variant) = None"
    by simp_all
next
  assume nv: "video variant = None"
  from variantToTrack_no_video [OF nv]
  show "videoCodec_t (variantToTrack variant) = None"
    and "videoId_t (variantToTrack variant) = None"
    and "width_t (variantToTrack variant) = None"
    and "height_t (variantToTrack variant) = None"
    and "frameRate_t (variantToTrack variant) = None"
    and "videoBandwidth_t (variantToTrack variant) = None"
    by simp_all
qed

text \<open>The example variant, and the same with only its video or only its audio stream.\<close>

theorem variantToTrack_projection_witness:
  "video exampleVariant = Some exampleVideo \<and> audio exampleVariant = Some exampleAudio \<and>
   codecs exampleVideo \<noteq> [] \<and> codecs exampleAudio \<noteq> [] \<and>
   codecs_t (variantToTrack exampleVariant) = Some ''avc1.4d401f, mp4a.40.2'' \<and>
   mimeType_t (variantToTrack exampleVariant) = Some ''video/mp4'' \<and>
   audio (exampleVariant\<lparr>audio := None\<rparr>) = None \<and>
   codecs_t (variantToTrack (exampleVariant\<lparr>audio := None\<rparr>)) = Some ''avc1.4d401f'' \<and>
   audioCodec_t (variantToTrack (exampleVariant\<lparr>audio := None\<rparr>)) = None \<and>
   channelsCount_t (variantToTrack (exampleVariant\<lparr>audio := None\<rparr>)) = None \<and>
   video (exampleVariant\<lparr>video := None\<rparr>) = None \<and>
   mimeType_t (variantToTrack (exampleVariant\<lparr>video := None\<rparr>)) = Some ''audio/mp4'' \<and>
   videoCodec_t (variantToTrack (exampleVariant\<lparr>video := None\<rparr>)) = None \<and>
   width_t (variantToTrack (exampleVariant\<lparr>video := None\<rparr>)) = None"
  using variantToTrack_projection [of exampleVariant exampleVideo exampleAudio]
        variantToTrack_projection [of "exampleVariant\<lparr>audio := None\<rparr>"]
        variantToTrack_projection [of "exampleVariant\<lparr>video := None\<rparr>"]
  by (simp add: exampleVariant_def exampleVideo_def exampleAudio_def)

section \<open>Lookup helpers: theorems\<close>

lemma findPeriodContainingTime_loop_le:
  "findPeriodContainingTime_loop arith thr ps t n \<le> n"
  by (induction n) (auto simp: le_Suc_eq)

lemma findPeriodContainingTime_loop_sat:
  "0 < findPeriodContainingTime_loop arith thr ps t n \<Longrightarrow>
   ge_n (add_n arith t thr) (startTime (ps ! findPeriodContainingTime_loop arith thr ps t n))"
  by (induction n) (auto split: if_splits)

lemma findPeriodContainingTime_loop_max:
  "0 < i \<Longrightarrow> i \<le> n \<Longrightarrow> ge_n (add_n arith t thr) (startTime (ps ! i)) \<Longrightarrow>
   i \<le> findPeriodContainingTime_loop arith thr ps t n"
proof (induction n)
  case 0
  then show ?case by simp
next
  case (Suc n)
  show ?case
  proof (cases "i = Suc n")
    case True
    with Suc.prems show ?thesis by simp
  next
    case False
    with Suc.prems have "i \<le> n" by simp
    from Suc.IH [OF Suc.prems(1) this Suc.prems(3)]
    have "i \<le> findPeriodContainingTime_loop arith thr ps t n" .
    moreover have "i \<le> Suc n" using Suc.prems by simp
    ultimately show ?thesis by simp
  qed
qed

text \<open>
  With three periods starting at 0, 10 and 20, a sum that is at least 10 and not at
  least 20 gives the index 1.
\<close>

lemma findPeriodContainingTime_second_of_three:
  assumes "ge_n (add_n arith time threshold) (Num 10)"
    and "\<not> ge_n (add_n arith time threshold) (Num 20)"
  shows "findPeriodContainingTime arith threshold
           \<lparr>periods = [pa\<lparr>startTime := Num 0\<rparr>, pb\<lparr>startTime := Num 10\<rparr>,
                        pc\<lparr>startTime := Num 20\<rparr>]\<rparr> time = 1"
  using assms by (simp add: findPeriodContainingTime_def numeral_2_eq_2)

text \<open>
  C9. \<open>findPeriodContainingTime\<close> returns the largest index above 0 whose period starts
  at or before the sum of the time and the tolerance, as the language computes it, and
  0 when there is none. With periods starting at 0, 10 and 20 it returns 1 exactly when
  that sum is at least 10 and not at least 20. With these periods and the time 9.999999
  (or a time from there to 10, as the binary64 number nearest to 9.999999 is), it
  returns 1 for a tolerance greater than 0.000001. The tolerance is a constant of the
  program whose value is not in this file: it is taken to be at most 9, so that the sum
  stays below the start of the third period; and the sum is taken to lie between the
  integers its exact value lies between, as the binary64 sum does.
\<close>

theorem findPeriodContainingTime_last_started:
  "findPeriodContainingTime arith threshold manifest time =
     Max (insert 0 {i. 0 < i \<and> i < length (periods manifest) \<and>
                      ge_n (add_n arith time threshold) (startTime (periods manifest ! i))}) \<and>
   ((\<forall>i. 0 < i \<and> i < length (periods manifest) \<longrightarrow>
         \<not> ge_n (add_n arith time threshold) (startTime (periods manifest ! i)))
      \<longrightarrow> findPeriodContainingTime arith threshold manifest time = 0) \<and>
   (findPeriodContainingTime arith threshold
      \<lparr>periods = [pa\<lparr>startTime := Num 0\<rparr>, pb\<lparr>startTime := Num 10\<rparr>,
                   pc\<lparr>startTime := Num 20\<rparr>]\<rparr> time = 1 \<longleftrightarrow>
      ge_n (add_n arith time threshold) (Num 10) \<and>
      \<not> ge_n (add_n arith time threshold) (Num 20)) \<and>
   (sumsBetweenIntegers arith \<and> 9.999999 \<le> t \<and> t \<le> 10 \<and>
    0.000001 < tolerance \<and> tolerance \<le> 9 \<longrightarrow>
      findPeriodContainingTime arith (Num tolerance)
        \<lparr>periods = [pa\<lparr>startTime := Num 0\<rparr>, pb\<lparr>startTime := Num 10\<rparr>,
                     pc\<lparr>startTime := Num 20\<rparr>]\<rparr>
        (Num t) = 1)"
proof (intro conjI impI)
  let ?ps = "periods manifest"
  let ?S = "{i. 0 < i \<and> i < length ?ps \<and>
                ge_n (add_n arith time threshold) (startTime (?ps ! i))}"
  let ?r = "findPeriodContainingTime arith threshold manifest time"
  have r_le: "?r \<le> length ?ps - 1"
    unfolding findPeriodContainingTime_def by (rule findPeriodContainingTime_loop_le)
  have fin: "finite (insert 0 ?S)" by simp
  have mem: "?r \<in> insert 0 ?S"
  proof (cases "?r = 0")
    case True
    then show ?thesis by simp
  next
    case False
    then have pos: "0 < ?r" by simp
    then have "ge_n (add_n arith time threshold) (startTime (?ps ! ?r))"
      unfolding findPeriodContainingTime_def by (rule findPeriodContainingTime_loop_sat)
    moreover have "?r < length ?ps" using r_le pos by simp
    ultimately show ?thesis using pos by simp
  qed
  have ub: "\<And>i. i \<in> insert 0 ?S \<Longrightarrow> i \<le> ?r"
  proof -
    fix i assume "i \<in> insert 0 ?S"
    then consider "i = 0" | "0 < i" "i \<le> length ?ps - 1"
        "ge_n (add_n arith time threshold) (startTime (?ps ! i))"
      by auto
    then show "i \<le> ?r"
    proof cases
      case 1
      then show ?thesis by simp
    next
      case 2
      then show ?thesis
        unfolding findPeriodContainingTime_def by (rule findPeriodContainingTime_loop_max)
    qed
  qed
  show "?r = Max (insert 0 ?S)"
    using Max_eqI [OF fin ub mem] by simp
  {
    assume none: "\<forall>i. 0 < i \<and> i < length ?ps \<longrightarrow>
         \<not> ge_n (add_n arith time threshold) (startTime (?ps ! i))"
    with mem show "?r = 0" by auto
  }
next
  show "findPeriodContainingTime arith threshold
      \<lparr>periods = [pa\<lparr>startTime := Num 0\<rparr>, pb\<lparr>startTime := Num 10\<rparr>,
                   pc\<lparr>startTime := Num 20\<rparr>]\<rparr> time = 1 \<longleftrightarrow>
      ge_n (add_n arith time threshold) (Num 10) \<and>
      \<not> ge_n (add_n arith time threshold) (Num 20)"
    by (simp add: findPeriodContainingTime_def numeral_2_eq_2)
next
  assume a: "sumsBetweenIntegers arith \<and> 9.999999 \<le> t \<and> t \<le> 10 \<and>
             0.000001 < tolerance \<and> tolerance \<le> 9"
  then have "real_of_int 10 \<le> t + tolerance" and "t + tolerance \<le> real_of_int 19"
    by simp_all
  moreover have "\<bar>10::int\<bar> \<le> 2 ^ 53" and "\<bar>19::int\<bar> \<le> 2 ^ 53" by simp_all
  ultimately obtain s where
    s: "add_n arith (Num t) (Num tolerance) = Num s" "real_of_int 10 \<le> s" "s \<le> real_of_int 19"
    using a unfolding sumsBetweenIntegers_def by blast
  have "ge_n (add_n arith (Num t) (Num tolerance)) (Num 10)"
    and "\<not> ge_n (add_n arith (Num t) (Num tolerance)) (Num 20)"
    using s by (simp_all add: ge_n_def)
  then show "findPeriodContainingTime arith (Num tolerance)
        \<lparr>periods = [pa\<lparr>startTime := Num 0\<rparr>, pb\<lparr>startTime := Num 10\<rparr>,
                     pc\<lparr>startTime := Num 20\<rparr>]\<rparr>
        (Num t) = 1"
    by (rule findPeriodContainingTime_second_of_three)
qed

text \<open>
  The example manifest, whose periods start at 0, 10 and 20, with a tolerance of a
  sixteenth of a second: the time \<open>10 - 1 / 2^20\<close>, which is above 9.999999, is in the
  period of index 1, and the time 5 in the period of index 0.
\<close>

theorem findPeriodContainingTime_last_started_witness:
  "sumsBetweenIntegers exampleArithmetic \<and>
   (9.999999::real) \<le> 10485759 / 1048576 \<and> (10485759 / 1048576::real) \<le> 10 \<and>
   (0.000001::real) < 1 / 16 \<and> (1 / 16::real) \<le> 9 \<and>
   findPeriodContainingTime exampleArithmetic (Num (1 / 16)) exampleManifest
     (Num (10485759 / 1048576)) = 1 \<and>
   \<not> ge_n (add_n exampleArithmetic (Num 5) (Num (1 / 16)))
       (startTime (periods exampleManifest ! 1)) \<and>
   \<not> ge_n (add_n exampleArithmetic (Num 5) (Num (1 / 16)))
       (startTime (periods exampleManifest ! 2)) \<and>
   findPeriodContainingTime exampleArithmetic (Num (1 / 16)) exampleManifest (Num 5) = 0"
proof -
  have m: "exampleManifest =
      \<lparr>periods = [(examplePeriodAt 0)\<lparr>startTime := Num 0\<rparr>,
                   (examplePeriodAt 10)\<lparr>startTime := Num 10\<rparr>,
                   (examplePeriodAt 20)\<lparr>startTime := Num 20\<rparr>]\<rparr>"
    by (simp add: exampleManifest_def examplePeriodAt_def)
  have sums: "sumsBetweenIntegers exampleArithmetic"
    by (simp add: sumsBetweenIntegers_def exampleArithmetic_def)
  have b: "(9.999999::real) \<le> 10485759 / 1048576 \<and> (10485759 / 1048576::real) \<le> 10 \<and>
           (0.000001::real) < 1 / 16 \<and> (1 / 16::real) \<le> 9"
    by simp
  have n1: "\<not> ge_n (add_n exampleArithmetic (Num 5) (Num (1 / 16)))
                (startTime (periods exampleManifest ! 1))"
    and n2: "\<not> ge_n (add_n exampleArithmetic (Num 5) (Num (1 / 16)))
                (startTime (periods exampleManifest ! 2))"
    by (simp_all add: exampleManifest_def examplePeriodAt_def exampleArithmetic_def ge_n_def
          numeral_2_eq_2)
  have none: "\<forall>i. 0 < i \<and> i < length (periods exampleManifest) \<longrightarrow>
      \<not> ge_n (add_n exampleArithmetic (Num 5) (Num (1 / 16)))
          (startTime (periods exampleManifest ! i))"
  proof (intro allI impI)
    fix i assume "0 < i \<and> i < length (periods exampleManifest)"
    then have "i = 1 \<or> i = 2" by (auto simp: exampleManifest_def)
    then show "\<not> ge_n (add_n exampleArithmetic (Num 5) (Num (1 / 16)))
                  (startTime (periods exampleManifest ! i))"
      using n1 n2 by auto
  qed
  have one: "findPeriodContainingTime exampleArithmetic (Num (1 / 16)) exampleManifest
               (Num (10485759 / 1048576)) = 1"
    using findPeriodContainingTime_last_started
            [where arith = exampleArithmetic and tolerance = "1 / 16"
               and t = "10485759 / 1048576" and pa = "examplePeriodAt 0"
               and pb = "examplePeriodAt 10" and pc = "examplePeriodAt 20"] sums b
    unfolding m [symmetric] by blast
  have zero: "findPeriodContainingTime exampleArithmetic (Num (1 / 16)) exampleManifest
                (Num 5) = 0"
    using findPeriodContainingTime_last_started
            [of exampleArithmetic "Num (1 / 16)" exampleManifest "Num 5"] none
    by blast
  show ?thesis using sums b one zero n1 n2 by simp
qed

end
